theory Spec2Isabelle
  imports Main
begin

section \<open>Data model (models/task.py)\<close>

text \<open>
  The pydantic models of \<^verbatim>\<open>models/task.py\<close>. A field called \<^verbatim>\<open>id\<close> in the source
  is prefixed with the name of its class, since \<open>id\<close> is the identity function of HOL,
  and the fields \<^verbatim>\<open>historyLength\<close> and \<^verbatim>\<open>metadata\<close> of \<^verbatim>\<open>TaskSendParams\<close> carry
  the prefix \<open>send_\<close> to keep them apart from those of \<^verbatim>\<open>TaskQueryParams\<close>.
  The field \<^verbatim>\<open>text\<close> of a part is \<open>part_text\<close>. Python's unbounded \<^verbatim>\<open>int\<close> is \<open>int\<close>;
  \<^verbatim>\<open>X | None\<close> is \<open>X option\<close>.
  The instant that \<^verbatim>\<open>datetime.now\<close> yields is a natural number read from a clock that
  the caller passes in.
\<close>

datatype Part = TextPart (part_text: string)

datatype Role = User | Agent

record Message =
  role :: Role
  parts :: "Part list"

datatype TaskState =
  SUBMITTED | WORKING | INPUT_REQUIRED | COMPLETED | CANCELED | FAILED | UNKNOWN

record TaskStatus =
  state :: TaskState
  timestamp :: nat

record Task =
  task_id :: string
  status :: TaskStatus
  history :: "Message list"

type_synonym metadata_dict = "(string \<times> string) list"

record TaskQueryParams =
  query_id :: string
  query_metadata :: "metadata_dict option"
  historyLength :: "int option"

record TaskSendParams =
  send_id :: string
  sessionId :: string
  message :: Message
  send_historyLength :: "int option"
  send_metadata :: "metadata_dict option"

section \<open>Exceptions\<close>

text \<open>
  Every exception the modelled code raises or lets through is a value; \<open>Raised\<close> stands
  for an exception of any other class that an external collaborator (the HTTP framework,
  pydantic, the reasoner, the operating system) raises. \<open>str\<close> is Python's \<^verbatim>\<open>str(e)\<close>.
\<close>

datatype exn =
  ValueError string
  | IndexError string
  | NotImplementedError string
  | TypeError string
  | OSError string
  | ValidationError string
  | Raised string

fun str :: "exn \<Rightarrow> string" where
  "str (ValueError m) = m"
| "str (IndexError m) = m"
| "str (NotImplementedError m) = m"
| "str (TypeError m) = m"
| "str (OSError m) = m"
| "str (ValidationError m) = m"
| "str (Raised m) = m"

section \<open>JSON-RPC envelope (models/request.py, models/json_rpc.py)\<close>

text \<open>
  Modelled from the spec: the request and response classes of \<^verbatim>\<open>models/request.py\<close> and
  \<^verbatim>\<open>models/json_rpc.py\<close>, two files that are not among the sources. A request is
  \<^verbatim>\<open>{id, params}\<close>, its method implied by its shape; a response is
  \<^verbatim>\<open>{id, result | error}\<close>, where the id may be null and an absent result or error is
  \<open>None\<close>. An error is \<^verbatim>\<open>{code: int, message: string, data?: any}\<close>: the code and the
  message are required, the data are optional.
\<close>

record JSONRPCError =
  error_code :: int
  error_message :: string
  error_data :: "string option"

text \<open>
  Modelled from the spec: the keyword arguments or the dictionary that an error is built
  from, each field given or not, and the validation that pydantic runs when the error is
  constructed: a required field that is not given raises \<^verbatim>\<open>ValidationError\<close>, whose text
  names the field.
\<close>

record error_fields =
  given_code :: "int option"
  given_message :: "string option"
  given_data :: "string option"

definition JSONRPCError_validate :: "error_fields \<Rightarrow> exn + JSONRPCError" where
  "JSONRPCError_validate given =
     (case given_code given of
        None \<Rightarrow> Inl (ValidationError ''error.code: Field required'')
      | Some c \<Rightarrow>
          (case given_message given of
             None \<Rightarrow> Inl (ValidationError ''error.message: Field required'')
           | Some m \<Rightarrow>
               Inr \<lparr>error_code = c, error_message = m, error_data = given_data given\<rparr>))"

text \<open>
  Modelled from the spec: \<^verbatim>\<open>InternalError\<close> of \<^verbatim>\<open>models/json_rpc.py\<close>, the generic error of
  the server boundary, which carries the text of the exception as its message. Its class
  supplies the code; the number is the one JSON-RPC 2.0 gives an internal error, and no
  statement below depends on which number it is.
\<close>

definition InternalError :: "string \<Rightarrow> JSONRPCError" where
  "InternalError m = \<lparr>error_code = - 32603, error_message = m, error_data = None\<rparr>"

record SendTaskRequest =
  send_request_id :: string
  send_params :: TaskSendParams

record GetTaskRequest =
  get_request_id :: string
  get_params :: TaskQueryParams

record JSONRPCResponse =
  response_id :: "string option"
  result :: "Task option"
  error :: "JSONRPCError option"

type_synonym SendTaskResponse = JSONRPCResponse
type_synonym GetTaskResponse = JSONRPCResponse

section \<open>InMemoryTaskManager (server/task_manager.py)\<close>

text \<open>
  \<^verbatim>\<open>self.tasks\<close> is a dictionary from task ids to tasks. The methods run under
  \<^verbatim>\<open>self.lock\<close>, so each is one atomic step on the dictionary: it takes the dictionary
  and returns its value together with the dictionary afterwards. The task object that
  \<^verbatim>\<open>upsert_task\<close> returns is the object stored under the id; the model returns its value
  and stores the same value.
\<close>

type_synonym task_store = "string \<rightharpoonup> Task"

definition upsert_task :: "nat \<Rightarrow> TaskSendParams \<Rightarrow> task_store \<Rightarrow> Task \<times> task_store" where
  "upsert_task now params tasks =
     (case tasks (send_id params) of
        None \<Rightarrow>
          (let task = \<lparr>task_id = send_id params,
                       status = \<lparr>state = SUBMITTED, timestamp = now\<rparr>,
                       history = [message params]\<rparr>
           in (task, tasks(send_id params \<mapsto> task)))
      | Some task \<Rightarrow>
          (let task' = task\<lparr>history := history task @ [message params]\<rparr>
           in (task', tasks(send_id params \<mapsto> task'))))"

text \<open>
  Python's \<^verbatim>\<open>xs[i:]\<close>: a negative \<^verbatim>\<open>i\<close> counts from the end and is clipped at the
  start of the list, a non-negative one is clipped at its end.
\<close>

definition slice_from :: "'a list \<Rightarrow> int \<Rightarrow> 'a list" where
  "slice_from xs i =
     (let n = int (length xs);
          start = (if i < 0 then max 0 (n + i) else min i n)
      in drop (nat start) xs)"

text \<open>
  \<^verbatim>\<open>on_get_task\<close>: \<^verbatim>\<open>not task\<close> holds of \<^verbatim>\<open>None\<close> only, a pydantic model being true.
  For an unknown id the response is constructed with the error
  \<^verbatim>\<open>{"message": "Task not found"}\<close>, a dictionary with a message and nothing else, which
  the response class validates as an error; an exception of that construction leaves the
  method. \<^verbatim>\<open>task.model_copy()\<close> copies the fields of the task; the model has the value of
  the copy. With a \<^verbatim>\<open>historyLength\<close> \<open>n\<close> the history of the copy is the slice
  \<^verbatim>\<open>history[-n:]\<close>. The method does not write the dictionary.
\<close>

definition on_get_task ::
    "GetTaskRequest \<Rightarrow> task_store \<Rightarrow> (exn + GetTaskResponse) \<times> task_store" where
  "on_get_task request tasks =
     (let query = get_params request in
      case tasks (query_id query) of
        None \<Rightarrow>
          (case JSONRPCError_validate
                  \<lparr>given_code = None, given_message = Some ''Task not found'',
                   given_data = None\<rparr> of
             Inl e \<Rightarrow> (Inl e, tasks)
           | Inr not_found \<Rightarrow>
               (Inr \<lparr>response_id = Some (get_request_id request), result = None,
                     error = Some not_found\<rparr>, tasks))
      | Some task \<Rightarrow>
          (let task_copy = task;
               task_copy' =
                 (case historyLength query of
                    Some n \<Rightarrow> task_copy\<lparr>history := slice_from (history task_copy) (- n)\<rparr>
                  | None \<Rightarrow> task_copy\<lparr>history := history task_copy\<rparr>)
           in (Inr \<lparr>response_id = Some (get_request_id request), result = Some task_copy',
                    error = None\<rparr>, tasks)))"

text \<open>
  A caller that sends one task after another: the calls are serialised, each with the
  instant its clock shows.
\<close>

fun upsert_calls :: "(nat \<times> TaskSendParams) list \<Rightarrow> task_store \<Rightarrow> task_store" where
  "upsert_calls [] tasks = tasks"
| "upsert_calls ((now, params) # calls) tasks =
     upsert_calls calls (snd (upsert_task now params tasks))"

definition history_of :: "task_store \<Rightarrow> string \<Rightarrow> Message list" where
  "history_of tasks k = (case tasks k of None \<Rightarrow> [] | Some task \<Rightarrow> history task)"

section \<open>Concrete task managers (agents/*/task_manager.py)\<close>

text \<open>
  The reasoner behind a task manager is the external \<^verbatim>\<open>agent.invoke(query, session_id)\<close>:
  it returns a reply text or raises. It has no access to the task dictionary.
\<close>

type_synonym reasoner = "string \<Rightarrow> string \<Rightarrow> exn + string"

text \<open>\<^verbatim>\<open>InMemoryTaskManager.on_send_task\<close>: not implemented in the base class.\<close>

definition InMemoryTaskManager_on_send_task ::
    "SendTaskRequest \<Rightarrow> task_store \<Rightarrow> (exn + SendTaskResponse) \<times> task_store" where
  "InMemoryTaskManager_on_send_task request tasks =
     (Inl (NotImplementedError ''on_send_task() must be implemented in subclass''), tasks)"

text \<open>
  \<^verbatim>\<open>request.params.message.parts[0].text\<close>: indexing an empty list raises \<^verbatim>\<open>IndexError\<close>.
\<close>

definition AgentTaskManager_get_user_query :: "SendTaskRequest \<Rightarrow> exn + string" where
  "AgentTaskManager_get_user_query request =
     (case parts (message (send_params request)) of
        [] \<Rightarrow> Inl (IndexError ''list index out of range'')
      | p # _ \<Rightarrow> Inr (part_text p))"

text \<open>
  \<^verbatim>\<open>AgentTaskManager.on_send_task\<close> (tell-time agent). \<open>t_upsert\<close> and \<open>t_completed\<close> are
  the instants of the two \<^verbatim>\<open>TaskStatus(...)\<close> constructions. An exception leaves the
  dictionary as the statements before it made it. The task that is completed is the
  object \<^verbatim>\<open>upsert_task\<close> returned, which is the one stored under the id.
\<close>

definition AgentTaskManager_on_send_task ::
    "reasoner \<Rightarrow> nat \<Rightarrow> nat \<Rightarrow> SendTaskRequest \<Rightarrow> task_store
       \<Rightarrow> (exn + SendTaskResponse) \<times> task_store" where
  "AgentTaskManager_on_send_task invoke t_upsert t_completed request tasks =
     (case upsert_task t_upsert (send_params request) tasks of
        (task, tasks1) \<Rightarrow>
          (case AgentTaskManager_get_user_query request of
             Inl e \<Rightarrow> (Inl e, tasks1)
           | Inr query \<Rightarrow>
               (case invoke query (sessionId (send_params request)) of
                  Inl e \<Rightarrow> (Inl e, tasks1)
                | Inr result_text \<Rightarrow>
                    (let agent_message = \<lparr>role = Agent, parts = [TextPart result_text]\<rparr>;
                         task' = task\<lparr>status := \<lparr>state = COMPLETED, timestamp = t_completed\<rparr>,
                                      history := history task @ [agent_message]\<rparr>
                     in (Inr \<lparr>response_id = Some (send_request_id request),
                               result = Some task', error = None\<rparr>,
                         tasks1(send_id (send_params request) \<mapsto> task'))))))"

definition GreetingTaskManager_get_user_text :: "SendTaskRequest \<Rightarrow> exn + string" where
  "GreetingTaskManager_get_user_text request =
     (case parts (message (send_params request)) of
        [] \<Rightarrow> Inl (IndexError ''list index out of range'')
      | p # _ \<Rightarrow> Inr (part_text p))"

text \<open>\<^verbatim>\<open>GreetingTaskManager.on_send_task\<close> (greeting agent).\<close>

definition GreetingTaskManager_on_send_task ::
    "reasoner \<Rightarrow> nat \<Rightarrow> nat \<Rightarrow> SendTaskRequest \<Rightarrow> task_store
       \<Rightarrow> (exn + SendTaskResponse) \<times> task_store" where
  "GreetingTaskManager_on_send_task invoke t_upsert t_completed request tasks =
     (case upsert_task t_upsert (send_params request) tasks of
        (task, tasks1) \<Rightarrow>
          (case GreetingTaskManager_get_user_text request of
             Inl e \<Rightarrow> (Inl e, tasks1)
           | Inr user_text \<Rightarrow>
               (case invoke user_text (sessionId (send_params request)) of
                  Inl e \<Rightarrow> (Inl e, tasks1)
                | Inr greeting_text \<Rightarrow>
                    (let reply_message = \<lparr>role = Agent, parts = [TextPart greeting_text]\<rparr>;
                         task' = task\<lparr>status := \<lparr>state = COMPLETED, timestamp = t_completed\<rparr>,
                                      history := history task @ [reply_message]\<rparr>
                     in (Inr \<lparr>response_id = Some (send_request_id request),
                               result = Some task', error = None\<rparr>,
                         tasks1(send_id (send_params request) \<mapsto> task'))))))"

section \<open>A2AServer (server/server.py)\<close>

text \<open>
  Modelled from the spec: \<^verbatim>\<open>A2ARequest\<close> of \<^verbatim>\<open>models/request.py\<close>, which is not among the
  sources, validates a body against the closed set of recognised request shapes,
  send-task and get-task. \<^verbatim>\<open>A2ARequest.validate_python\<close> yields a request of one of the
  two classes or raises; the validator is a parameter of the handler, and so is
  \<^verbatim>\<open>request.json()\<close>, whose outcome is the decoded body or the exception of a malformed
  one.
\<close>

datatype A2ARequest = SendTask SendTaskRequest | GetTask GetTaskRequest

record JSONResponse =
  status_code :: nat
  content :: JSONRPCResponse

text \<open>Python's \<^verbatim>\<open>f"{type(json_rpc)}"\<close> for the request classes.\<close>

fun type_repr :: "A2ARequest \<Rightarrow> string" where
  "type_repr (SendTask _) =
     ''<class '' @ [CHR 0x27] @ ''models.request.SendTaskRequest'' @ [CHR 0x27] @ ''>''"
| "type_repr (GetTask _) =
     ''<class '' @ [CHR 0x27] @ ''models.request.GetTaskRequest'' @ [CHR 0x27] @ ''>''"

text \<open>
  \<^verbatim>\<open>_create_response\<close>: a \<^verbatim>\<open>JSONRPCResponse\<close> becomes a JSON response with the default
  status 200. Its other branch needs an argument that is no \<^verbatim>\<open>JSONRPCResponse\<close>,
  which the type of \<open>rpc_result\<close> (the parameter \<^verbatim>\<open>result\<close>) excludes.
\<close>

definition create_response :: "JSONRPCResponse \<Rightarrow> exn + JSONResponse" where
  "create_response rpc_result = Inr \<lparr>status_code = 200, content = rpc_result\<rparr>"

text \<open>
  The body of the \<^verbatim>\<open>try\<close> block of \<^verbatim>\<open>_handle_request\<close>. \<open>on_send_task\<close> is the method
  of \<^verbatim>\<open>self.task_manager\<close>, with whatever state \<open>'s\<close> that manager keeps.
\<close>

definition handle_request_try ::
    "(exn + 'j) \<Rightarrow> ('j \<Rightarrow> exn + A2ARequest)
       \<Rightarrow> (SendTaskRequest \<Rightarrow> 's \<Rightarrow> (exn + SendTaskResponse) \<times> 's)
       \<Rightarrow> 's \<Rightarrow> (exn + JSONResponse) \<times> 's" where
  "handle_request_try request_json validate_python on_send_task manager =
     (case request_json of
        Inl e \<Rightarrow> (Inl e, manager)
      | Inr body \<Rightarrow>
          (case validate_python body of
             Inl e \<Rightarrow> (Inl e, manager)
           | Inr json_rpc \<Rightarrow>
               (case json_rpc of
                  SendTask send_request \<Rightarrow>
                    (case on_send_task send_request manager of
                       (Inl e, manager') \<Rightarrow> (Inl e, manager')
                     | (Inr response, manager') \<Rightarrow> (create_response response, manager'))
                | GetTask _ \<Rightarrow>
                    (Inl (ValueError (''Unsupported A2A method: '' @ type_repr json_rpc)),
                     manager))))"

text \<open>
  \<^verbatim>\<open>_handle_request\<close>: the \<^verbatim>\<open>except Exception\<close> handler turns every exception of the
  block into a response with status 400.
\<close>

definition handle_request ::
    "(exn + 'j) \<Rightarrow> ('j \<Rightarrow> exn + A2ARequest)
       \<Rightarrow> (SendTaskRequest \<Rightarrow> 's \<Rightarrow> (exn + SendTaskResponse) \<times> 's)
       \<Rightarrow> 's \<Rightarrow> JSONResponse \<times> 's" where
  "handle_request request_json validate_python on_send_task manager =
     (case handle_request_try request_json validate_python on_send_task manager of
        (Inr response, manager') \<Rightarrow> (response, manager')
      | (Inl e, manager') \<Rightarrow>
          (\<lparr>status_code = 400,
            content = \<lparr>response_id = None, result = None,
                       error = Some (InternalError (str e))\<rparr>\<rparr>, manager'))"

section \<open>Agent cards (models/agent.py)\<close>

record AgentCapabilities =
  streaming :: bool
  pushNotifications :: bool
  stateTransitionHistory :: bool

record AgentSkill =
  skill_id :: string
  skill_name :: string
  skill_description :: "string option"
  tags :: "string list option"
  examples :: "string list option"
  inputModes :: "string list option"
  outputModes :: "string list option"

record AgentCard =
  name :: string
  description :: string
  url :: string
  version :: string
  capabilities :: AgentCapabilities
  skills :: "AgentSkill list"

section \<open>DiscoveryClient (utilities/discovery.py)\<close>

text \<open>Python's \<^verbatim>\<open>s.rstrip(chars)\<close>: the trailing characters that are in \<open>chars\<close> go.\<close>

definition rstrip :: "string \<Rightarrow> string \<Rightarrow> string" where
  "rstrip s chars = rev (dropWhile (\<lambda>c. c \<in> set chars) (rev s))"

text \<open>
  The calls into \<^verbatim>\<open>httpx\<close> and pydantic that the \<^verbatim>\<open>try\<close> block of
  \<^verbatim>\<open>list_agent_cards\<close> makes, each returning its value or raising: the GET of a URL
  (network errors and the timeout raise), \<^verbatim>\<open>raise_for_status\<close>, the decoding of the
  body and the validation of the card against its schema.
\<close>

record ('resp, 'json) discovery_env =
  client_get :: "string \<Rightarrow> exn + 'resp"
  raise_for_status :: "'resp \<Rightarrow> exn + unit"
  response_json :: "'resp \<Rightarrow> exn + 'json"
  model_validate :: "'json \<Rightarrow> exn + AgentCard"

text \<open>The statements of the \<^verbatim>\<open>try\<close> block up to the card that is appended.\<close>

definition fetch_card :: "('resp, 'json) discovery_env \<Rightarrow> string \<Rightarrow> exn + AgentCard" where
  "fetch_card env fetch_url =
     (case client_get env fetch_url of
        Inl e \<Rightarrow> Inl e
      | Inr response \<Rightarrow>
          (case raise_for_status env response of
             Inl e \<Rightarrow> Inl e
           | Inr _ \<Rightarrow>
               (case response_json env response of
                  Inl e \<Rightarrow> Inl e
                | Inr body \<Rightarrow> model_validate env body)))"

text \<open>
  The \<^verbatim>\<open>for\<close> loop of \<^verbatim>\<open>list_agent_cards\<close> with its accumulator \<^verbatim>\<open>cards\<close>; the handler
  \<^verbatim>\<open>except Exception\<close> logs a warning and goes on with the next URL. The base URLs are
  strings, on which \<^verbatim>\<open>rstrip\<close> and the concatenation do not raise; the
  \<^verbatim>\<open>async with httpx.AsyncClient()\<close> around the loop, which is outside the \<^verbatim>\<open>try\<close>
  block, is taken to open and close the client without raising.
\<close>

fun list_agent_cards_loop ::
    "('resp, 'json) discovery_env \<Rightarrow> AgentCard list \<Rightarrow> string list \<Rightarrow> AgentCard list" where
  "list_agent_cards_loop env cards [] = cards"
| "list_agent_cards_loop env cards (base # base_urls) =
     (let fetch_url = rstrip base ''/'' @ ''/.well-known/agent.json'' in
      case fetch_card env fetch_url of
        Inr agent_card \<Rightarrow> list_agent_cards_loop env (cards @ [agent_card]) base_urls
      | Inl e \<Rightarrow> list_agent_cards_loop env cards base_urls)"

definition list_agent_cards ::
    "('resp, 'json) discovery_env \<Rightarrow> string list \<Rightarrow> AgentCard list" where
  "list_agent_cards env base_urls = list_agent_cards_loop env [] base_urls"

text \<open>What discovery makes of one base URL: its card, or nothing when the fetch raises.\<close>

definition card_at :: "('resp, 'json) discovery_env \<Rightarrow> string \<Rightarrow> AgentCard option" where
  "card_at env base =
     (case fetch_card env (rstrip base ''/'' @ ''/.well-known/agent.json'') of
        Inr agent_card \<Rightarrow> Some agent_card
      | Inl e \<Rightarrow> None)"

section \<open>RpcLogger (utilities/rpc_logger.py)\<close>

record 'd log_entry =
  entry_timestamp :: string
  sender :: string
  receiver :: string
  direction :: string
  data :: 'd

text \<open>
  What \<^verbatim>\<open>log_interaction\<close> asks of the operating system and of the \<^verbatim>\<open>json\<close> module:
  \<^verbatim>\<open>os.makedirs(path, exist_ok=True)\<close>, the clock, \<^verbatim>\<open>json.dumps\<close> (which raises
  \<^verbatim>\<open>TypeError\<close> on a value it cannot serialise), \<^verbatim>\<open>open(path, "a")\<close> and the
  \<^verbatim>\<open>write\<close> of the opened file.
\<close>

record 'd logger_env =
  makedirs :: "string \<Rightarrow> exn + unit"
  utcnow_isoformat :: string
  json_dumps :: "'d log_entry \<Rightarrow> exn + string"
  open_append :: "string \<Rightarrow> exn + unit"
  file_write :: "string \<Rightarrow> exn + unit"

definition LOG_FILE :: string where
  "LOG_FILE = ''logs/rpc_logs.jsonl''"

text \<open>\<^verbatim>\<open>os.path.dirname\<close> of \<^verbatim>\<open>posixpath\<close>.\<close>

definition dirname :: "string \<Rightarrow> string" where
  "dirname p =
     (let head = rev (dropWhile (\<lambda>c. c \<noteq> CHR ''/'') (rev p)) in
      if head \<noteq> [] \<and> head \<noteq> replicate (length head) (CHR ''/'')
      then rstrip head ''/'' else head)"

definition ensure_log_dir :: "'d logger_env \<Rightarrow> exn + unit" where
  "ensure_log_dir env = makedirs env (dirname LOG_FILE)"

text \<open>
  \<^verbatim>\<open>log_interaction\<close> on the text of the log file: the text afterwards, or the exception
  that leaves the function. No statement of it sits in a \<^verbatim>\<open>try\<close> block.
\<close>

definition log_interaction ::
    "'d logger_env \<Rightarrow> string \<Rightarrow> string \<Rightarrow> 'd \<Rightarrow> string \<Rightarrow> string \<Rightarrow> exn + string" where
  "log_interaction env sender_name receiver_name payload dir log_text =
     (case ensure_log_dir env of
        Inl e \<Rightarrow> Inl e
      | Inr _ \<Rightarrow>
          (let entry = \<lparr>entry_timestamp = utcnow_isoformat env, sender = sender_name,
                        receiver = receiver_name, direction = dir, data = payload\<rparr>
           in case open_append env LOG_FILE of
                Inl e \<Rightarrow> Inl e
              | Inr _ \<Rightarrow>
                  (case json_dumps env entry of
                     Inl e \<Rightarrow> Inl e
                   | Inr line \<Rightarrow>
                       (case file_write env (line @ [CHR 0x0A]) of
                          Inl e \<Rightarrow> Inl e
                        | Inr _ \<Rightarrow> Inr (log_text @ line @ [CHR 0x0A])))))"

section \<open>OrchestratorAgent (agents/host_agent/orchestrator.py)\<close>

text \<open>
  Modelled from the spec: \<^verbatim>\<open>AgentConnector\<close> of \<^verbatim>\<open>agents/host_agent/agent_connect.py\<close>,
  which is not among the sources, is the outbound client bound to one peer. A connector
  is the three arguments that \<^verbatim>\<open>__init__\<close> constructs it from, and its
  \<^verbatim>\<open>send_task(message, session_id)\<close>, which returns the peer's task or raises, is a
  parameter of \<^verbatim>\<open>_delegate_task\<close>.
\<close>

record AgentConnector =
  connector_name :: string
  base_url :: string
  sender_agent :: string

definition connector_for :: "AgentCard \<Rightarrow> AgentConnector" where
  "connector_for agent_card =
     \<lparr>connector_name = name agent_card, base_url = url agent_card,
      sender_agent = ''orchestrator_agent''\<rparr>"

text \<open>
  \<^verbatim>\<open>self.connectors\<close> as \<^verbatim>\<open>__init__\<close> builds it: the dictionary comprehension stores
  the cards in order under their names, a later card replacing an earlier one of the
  same name.
\<close>

definition connectors_init :: "AgentCard list \<Rightarrow> (string \<rightharpoonup> AgentConnector)" where
  "connectors_init agent_cards =
     fold (\<lambda>agent_card connectors.
             connectors(name agent_card \<mapsto> connector_for agent_card))
       agent_cards Map.empty"

text \<open>
  \<^verbatim>\<open>_delegate_task\<close> from the line after the connector is chosen: the session id is
  read from the state of the tool context or created there, the task is sent, and the
  text of the last message is returned when the history has more than one message.
\<close>

definition delegate_to ::
    "(AgentConnector \<Rightarrow> string \<Rightarrow> string \<Rightarrow> exn + Task) \<Rightarrow> string
       \<Rightarrow> AgentConnector \<Rightarrow> string \<Rightarrow> (string \<rightharpoonup> string)
       \<Rightarrow> (exn + string) \<times> (string \<rightharpoonup> string)" where
  "delegate_to send_task uuid4 connector msg tool_state =
     (case (case tool_state ''session_id'' of
              None \<Rightarrow> (uuid4, tool_state(''session_id'' \<mapsto> uuid4))
            | Some sid \<Rightarrow> (sid, tool_state)) of
        (session_id, tool_state') \<Rightarrow>
          (case send_task connector msg session_id of
             Inl e \<Rightarrow> (Inl e, tool_state')
           | Inr child_task \<Rightarrow>
               (if history child_task \<noteq> [] \<and> length (history child_task) > 1
                then (case parts (last (history child_task)) of
                        [] \<Rightarrow> (Inl (IndexError ''list index out of range''), tool_state')
                      | p # _ \<Rightarrow> (Inr (part_text p), tool_state'))
                else (Inr [], tool_state'))))"

text \<open>\<^verbatim>\<open>_delegate_task\<close>: the lookup of the connector, then the rest.\<close>

definition delegate_task ::
    "(string \<rightharpoonup> AgentConnector) \<Rightarrow> (AgentConnector \<Rightarrow> string \<Rightarrow> string \<Rightarrow> exn + Task)
       \<Rightarrow> string \<Rightarrow> string \<Rightarrow> string \<Rightarrow> (string \<rightharpoonup> string)
       \<Rightarrow> (exn + string) \<times> (string \<rightharpoonup> string)" where
  "delegate_task connectors send_task uuid4 agent_name msg tool_state =
     (case connectors agent_name of
        None \<Rightarrow> (Inl (ValueError (''Unknown agent: '' @ agent_name)), tool_state)
      | Some connector \<Rightarrow> delegate_to send_task uuid4 connector msg tool_state)"

section \<open>GreetingAgent (agents/greeting_agent/agent.py)\<close>

text \<open>
  Python's \<^verbatim>\<open>s.lower()\<close> on the letters of ASCII; a string of the model is a list of
  bytes, and the other bytes stay as they are.
\<close>

definition lower :: "string \<Rightarrow> string" where
  "lower s =
     map (\<lambda>c. case map_of (zip ''ABCDEFGHIJKLMNOPQRSTUVWXYZ'' ''abcdefghijklmnopqrstuvwxyz'') c of
                None \<Rightarrow> c
              | Some l \<Rightarrow> l) s"

text \<open>Python's \<^verbatim>\<open>sub in s\<close> on strings: \<open>sub\<close> occurs in \<open>s\<close> as a run of characters.\<close>

fun str_contains :: "string \<Rightarrow> string \<Rightarrow> bool" where
  "str_contains [] sub = (sub = [])"
| "str_contains (c # s) sub = (take (length sub) (c # s) = sub \<or> str_contains s sub)"

text \<open>
  \<^verbatim>\<open>getattr(c, "id", "")\<close> on an agent card: \<^verbatim>\<open>AgentCard\<close> declares no field
  \<^verbatim>\<open>id\<close>, so the default, the empty string, is the value.
\<close>

definition card_id :: "AgentCard \<Rightarrow> string" where
  "card_id agent_card = []"

text \<open>
  The card that \<^verbatim>\<open>call_agent\<close> settles on: the first card whose name or id equals the
  requested name when both are put in lower case, and when there is none the first card
  whose lower-case name contains the lower-case requested name.
\<close>

definition matched_card :: "AgentCard list \<Rightarrow> string \<Rightarrow> AgentCard option" where
  "matched_card cards agent_name =
     (case find (\<lambda>c. lower (name c) = lower agent_name
                       \<or> lower (card_id c) = lower agent_name) cards of
        Some c \<Rightarrow> Some c
      | None \<Rightarrow> find (\<lambda>c. str_contains (lower (name c)) (lower agent_name)) cards)"

text \<open>
  \<^verbatim>\<open>call_agent\<close>, the tool of the greeting agent that delegates a message. \<open>cards\<close> is
  what \<^verbatim>\<open>self.discovery.list_agent_cards()\<close> returned, \<open>connectors\<close> is the cache
  \<^verbatim>\<open>self.connectors\<close>, which keeps one connector per resolved name, and the session id
  is \<^verbatim>\<open>self.user_id\<close>.
\<close>

definition call_agent ::
    "AgentCard list \<Rightarrow> (AgentConnector \<Rightarrow> string \<Rightarrow> string \<Rightarrow> exn + Task) \<Rightarrow> string
       \<Rightarrow> string \<Rightarrow> string \<Rightarrow> (string \<rightharpoonup> AgentConnector)
       \<Rightarrow> (exn + string) \<times> (string \<rightharpoonup> AgentConnector)" where
  "call_agent cards send_task user_id agent_name msg connectors =
     (case matched_card cards agent_name of
        None \<Rightarrow>
          (Inl (ValueError (''Agent '' @ [CHR 0x27] @ agent_name @ [CHR 0x27] @ '' not found.'')),
           connectors)
      | Some matched \<Rightarrow>
          (case (case connectors (name matched) of
                   None \<Rightarrow>
                     (let connector = \<lparr>connector_name = name matched, base_url = url matched,
                                       sender_agent = ''GreetingAgent''\<rparr>
                      in (connector, connectors(name matched \<mapsto> connector)))
                 | Some connector \<Rightarrow> (connector, connectors)) of
             (connector, connectors') \<Rightarrow>
               (case send_task connector msg user_id of
                  Inl e \<Rightarrow> (Inl e, connectors')
                | Inr task \<Rightarrow>
                    (if history task \<noteq> []
                     then (case parts (last (history task)) of
                             [] \<Rightarrow> (Inr [], connectors')
                           | p # _ \<Rightarrow> (Inr (part_text p), connectors'))
                     else (Inr [], connectors')))))"

text \<open>
  The resolution in the words of the claim: (a) the first card whose name is the
  requested name up to case; (b) a card whose id is the requested name up to case, for
  cards that have an id, which no \<^verbatim>\<open>AgentCard\<close> has; (c) the first card whose name
  contains the requested name up to case; and no card when none of these finds one.
\<close>

definition resolution_as_claimed :: "AgentCard list \<Rightarrow> string \<Rightarrow> AgentCard option" where
  "resolution_as_claimed cards agent_name =
     (case find (\<lambda>c. lower (name c) = lower agent_name) cards of
        Some c \<Rightarrow> Some c
      | None \<Rightarrow> find (\<lambda>c. str_contains (lower (name c)) (lower agent_name)) cards)"

section \<open>Example inputs\<close>

text \<open>
  The task \<^verbatim>\<open>t1\<close> of the end-to-end example: a user message, the reply of a stub
  reasoner, and the requests that send and query it.
\<close>

definition user_hi :: Message where
  "user_hi = \<lparr>role = User, parts = [TextPart ''hi'']\<rparr>"

definition user_again :: Message where
  "user_again = \<lparr>role = User, parts = [TextPart ''again'']\<rparr>"

definition agent_hello :: Message where
  "agent_hello = \<lparr>role = Agent, parts = [TextPart ''hello'']\<rparr>"

definition params_t1 :: "Message \<Rightarrow> TaskSendParams" where
  "params_t1 m =
     \<lparr>send_id = ''t1'', sessionId = ''s1'', message = m,
      send_historyLength = None, send_metadata = None\<rparr>"

definition send_t1 :: SendTaskRequest where
  "send_t1 = \<lparr>send_request_id = ''req-1'', send_params = params_t1 user_hi\<rparr>"

definition get_t1 :: "int option \<Rightarrow> GetTaskRequest" where
  "get_t1 n =
     \<lparr>get_request_id = ''req-2'',
      get_params = \<lparr>query_id = ''t1'', query_metadata = None, historyLength = n\<rparr>\<rparr>"

definition task_t1 :: Task where
  "task_t1 =
     \<lparr>task_id = ''t1'', status = \<lparr>state = COMPLETED, timestamp = 2\<rparr>,
      history = [user_hi, agent_hello]\<rparr>"

definition stub_reasoner :: reasoner where
  "stub_reasoner query session_id = Inr ''hello''"

definition failing_reasoner :: reasoner where
  "failing_reasoner query session_id = Inl (Raised ''model unavailable'')"

text \<open>
  Two agent cards as discovery returns them, and a peer whose \<^verbatim>\<open>send_task\<close> answers
  with a two-message task: the message it was sent and a reply that names the connector
  that was used.
\<close>

definition tell_time_card :: AgentCard where
  "tell_time_card =
     \<lparr>name = ''TellTimeAgent'', description = ''Tells the current time'',
      url = ''http://localhost:10000'', version = ''1.0.0'',
      capabilities = \<lparr>streaming = False, pushNotifications = False,
                       stateTransitionHistory = False\<rparr>,
      skills = []\<rparr>"

definition greeting_card :: AgentCard where
  "greeting_card =
     \<lparr>name = ''GreetingAgent'', description = ''Greets the user'',
      url = ''http://localhost:10001'', version = ''1.0.0'',
      capabilities = \<lparr>streaming = False, pushNotifications = False,
                       stateTransitionHistory = False\<rparr>,
      skills = []\<rparr>"

definition echo_send_task :: "AgentConnector \<Rightarrow> string \<Rightarrow> string \<Rightarrow> exn + Task" where
  "echo_send_task connector msg session_id =
     Inr \<lparr>task_id = ''child'', status = \<lparr>state = COMPLETED, timestamp = 0\<rparr>,
          history = [\<lparr>role = User, parts = [TextPart msg]\<rparr>,
                     \<lparr>role = Agent, parts = [TextPart (connector_name connector)]\<rparr>]\<rparr>"

text \<open>
  Peers as discovery meets them. The response of a GET is a status and a body;
  \<^verbatim>\<open>raise_for_status\<close> raises on a status outside 200 to 299. Two peers serve their
  cards; of the others one refuses the connection, one times out, one answers 404, one
  answers with a body that is no JSON and one with JSON that is no agent card.
\<close>

definition peers_env :: "(nat \<times> string, string) discovery_env" where
  "peers_env =
     \<lparr>client_get = (\<lambda>fetch_url.
         if fetch_url = ''http://time/.well-known/agent.json'' then Inr (200, ''time card'')
         else if fetch_url = ''http://greet/.well-known/agent.json'' then Inr (200, ''greet card'')
         else if fetch_url = ''http://gone/.well-known/agent.json'' then Inr (404, ''Not Found'')
         else if fetch_url = ''http://html/.well-known/agent.json'' then Inr (200, ''<html>'')
         else if fetch_url = ''http://other/.well-known/agent.json'' then Inr (200, ''{}'')
         else if fetch_url = ''http://slow/.well-known/agent.json'' then Inl (Raised ''ReadTimeout'')
         else Inl (Raised ''All connection attempts failed'')),
      raise_for_status = (\<lambda>response.
         if 200 \<le> fst response \<and> fst response < 300 then Inr ()
         else Inl (Raised ''Client error for url'')),
      response_json = (\<lambda>response.
         if snd response = ''<html>'' then Inl (Raised ''Expecting value'')
         else Inr (snd response)),
      model_validate = (\<lambda>body.
         if body = ''time card'' then Inr tell_time_card
         else if body = ''greet card'' then Inr greeting_card
         else Inl (ValidationError ''validation errors for AgentCard''))\<rparr>"

definition three_urls :: "string list" where
  "three_urls = [''http://time/'', ''http://down'', ''http://greet'']"

definition seven_urls :: "string list" where
  "seven_urls =
     [''http://gone'', ''http://time'', ''http://html/'', ''http://slow'', ''http://greet//'',
      ''http://other'', ''http://down'']"

text \<open>
  Three environments of the logger: one in which every call succeeds and an entry is
  written as the names of its sender and receiver, one in which the directory cannot be
  created, and one in which the payload cannot be serialised.
\<close>

definition working_env :: "unit logger_env" where
  "working_env =
     \<lparr>makedirs = (\<lambda>path. Inr ()),
      utcnow_isoformat = ''2025-01-01T00:00:00'',
      json_dumps = (\<lambda>entry. Inr (sender entry @ ''>'' @ receiver entry)),
      open_append = (\<lambda>path. Inr ()),
      file_write = (\<lambda>line. Inr ())\<rparr>"

definition readonly_env :: "unit logger_env" where
  "readonly_env = working_env\<lparr>makedirs := (\<lambda>path. Inl (OSError ''Permission denied''))\<rparr>"

definition unserialisable_env :: "unit logger_env" where
  "unserialisable_env =
     working_env\<lparr>json_dumps := (\<lambda>entry. Inl (TypeError ''Object is not JSON serializable''))\<rparr>"

section \<open>The task store: upsert\<close>

lemma upsert_task_absent:
  "tasks (send_id params) = None \<Longrightarrow>
   upsert_task now params tasks =
     (\<lparr>task_id = send_id params, status = \<lparr>state = SUBMITTED, timestamp = now\<rparr>,
       history = [message params]\<rparr>,
      tasks(send_id params \<mapsto>
        \<lparr>task_id = send_id params, status = \<lparr>state = SUBMITTED, timestamp = now\<rparr>,
         history = [message params]\<rparr>))"
  by (simp add: upsert_task_def Let_def)

lemma upsert_task_present:
  "tasks (send_id params) = Some task \<Longrightarrow>
   upsert_task now params tasks =
     (task\<lparr>history := history task @ [message params]\<rparr>,
      tasks(send_id params \<mapsto> task\<lparr>history := history task @ [message params]\<rparr>))"
  by (simp add: upsert_task_def Let_def)

lemma upsert_task_stores_result:
  "snd (upsert_task now params tasks) (send_id params) = Some (fst (upsert_task now params tasks))"
  by (simp add: upsert_task_def Let_def split: option.split)

lemma upsert_task_other_ids:
  "k \<noteq> send_id params \<Longrightarrow> snd (upsert_task now params tasks) k = tasks k"
  by (simp add: upsert_task_def Let_def split: option.split)

lemma history_of_upsert_task:
  "history_of (snd (upsert_task now params tasks)) (send_id params) =
     history_of tasks (send_id params) @ [message params]"
  by (simp add: upsert_task_def history_of_def Let_def split: option.split)

lemma history_of_upsert_task_other:
  "k \<noteq> send_id params \<Longrightarrow> history_of (snd (upsert_task now params tasks)) k = history_of tasks k"
  by (simp add: history_of_def upsert_task_other_ids)

text \<open>
  Calls for other ids may come in between: the history under \<open>k\<close> grows by the messages
  of the calls for \<open>k\<close>, in call order.
\<close>

lemma history_of_upsert_calls_interleaved:
  "history_of (upsert_calls calls tasks) k =
     history_of tasks k @ map (message \<circ> snd) (filter (\<lambda>c. send_id (snd c) = k) calls)"
proof (induction calls arbitrary: tasks)
  case Nil
  show ?case by simp
next
  case (Cons c calls)
  obtain now params where c: "c = (now, params)" by (cases c)
  let ?tasks1 = "snd (upsert_task now params tasks)"
  have step: "history_of (upsert_calls (c # calls) tasks) k =
        history_of ?tasks1 k @ map (message \<circ> snd) (filter (\<lambda>c. send_id (snd c) = k) calls)"
    using Cons.IH [of ?tasks1] by (simp add: c)
  show ?case
  proof (cases "send_id params = k")
    case True
    then have "history_of ?tasks1 k = history_of tasks k @ [message params]"
      using history_of_upsert_task [of now params tasks] by simp
    with step True show ?thesis by (simp add: c)
  next
    case False
    then have "history_of ?tasks1 k = history_of tasks k"
      using history_of_upsert_task_other [of k params now tasks] by simp
    with step False show ?thesis by (simp add: c)
  qed
qed

lemma history_of_upsert_calls:
  assumes "\<forall>c \<in> set calls. send_id (snd c) = k"
  shows "history_of (upsert_calls calls tasks) k =
           history_of tasks k @ map (message \<circ> snd) calls"
proof -
  from assms have "filter (\<lambda>c. send_id (snd c) = k) calls = calls"
    by (simp add: filter_id_conv)
  then show ?thesis
    using history_of_upsert_calls_interleaved [of calls tasks k] by simp
qed

lemma upsert_calls_defined:
  "calls \<noteq> [] \<Longrightarrow> \<forall>c \<in> set calls. send_id (snd c) = k \<Longrightarrow> upsert_calls calls tasks k \<noteq> None"
proof (induction calls arbitrary: tasks)
  case Nil then show ?case by simp
next
  case (Cons c calls)
  obtain now params where c: "c = (now, params)" by (cases c)
  from Cons.prems c have k: "send_id params = k" by simp
  show ?case
  proof (cases "calls = []")
    case True
    then show ?thesis using upsert_task_stores_result [of now params tasks] k by (simp add: c)
  next
    case False
    then show ?thesis using Cons.IH [of "snd (upsert_task now params tasks)"] Cons.prems by (simp add: c)
  qed
qed

text \<open>
  Claim C1. A call of \<^verbatim>\<open>upsert_task\<close> whose id names no task stores and returns a new
  task with state \<^verbatim>\<open>submitted\<close> and the one-message history of its message; a call
  whose id names a task appends its message to the end of that task's history and returns
  the task as stored. So after serialised calls that all carry the id \<open>k\<close>, the history
  under \<open>k\<close> is the history from before followed by the messages of the calls in call
  order; from a dictionary without \<open>k\<close> it is exactly those messages.
\<close>

theorem upsert_task_creates_or_appends:
  "(tasks (send_id params) = None \<longrightarrow>
      upsert_task now params tasks =
        (\<lparr>task_id = send_id params, status = \<lparr>state = SUBMITTED, timestamp = now\<rparr>,
          history = [message params]\<rparr>,
         tasks(send_id params \<mapsto>
           \<lparr>task_id = send_id params, status = \<lparr>state = SUBMITTED, timestamp = now\<rparr>,
            history = [message params]\<rparr>)))
   \<and> (\<forall>task. tasks (send_id params) = Some task \<longrightarrow>
        upsert_task now params tasks =
          (task\<lparr>history := history task @ [message params]\<rparr>,
           tasks(send_id params \<mapsto> task\<lparr>history := history task @ [message params]\<rparr>)))
   \<and> ((\<forall>c \<in> set calls. send_id (snd c) = k) \<longrightarrow>
        history_of (upsert_calls calls tasks) k =
          history_of tasks k @ map (message \<circ> snd) calls)
   \<and> (calls \<noteq> [] \<and> (\<forall>c \<in> set calls. send_id (snd c) = k) \<and> tasks k = None \<longrightarrow>
        (\<exists>task. upsert_calls calls tasks k = Some task \<and>
                history task = map (message \<circ> snd) calls))"
proof (intro conjI impI allI)
  assume "tasks (send_id params) = None"
  then show "upsert_task now params tasks =
        (\<lparr>task_id = send_id params, status = \<lparr>state = SUBMITTED, timestamp = now\<rparr>,
          history = [message params]\<rparr>,
         tasks(send_id params \<mapsto>
           \<lparr>task_id = send_id params, status = \<lparr>state = SUBMITTED, timestamp = now\<rparr>,
            history = [message params]\<rparr>))"
    by (rule upsert_task_absent)
next
  fix task
  assume "tasks (send_id params) = Some task"
  then show "upsert_task now params tasks =
          (task\<lparr>history := history task @ [message params]\<rparr>,
           tasks(send_id params \<mapsto> task\<lparr>history := history task @ [message params]\<rparr>))"
    by (rule upsert_task_present)
next
  assume "\<forall>c \<in> set calls. send_id (snd c) = k"
  then show "history_of (upsert_calls calls tasks) k =
          history_of tasks k @ map (message \<circ> snd) calls"
    by (rule history_of_upsert_calls)
next
  assume a: "calls \<noteq> [] \<and> (\<forall>c \<in> set calls. send_id (snd c) = k) \<and> tasks k = None"
  then obtain task where t: "upsert_calls calls tasks k = Some task"
    using upsert_calls_defined [of calls k tasks] by auto
  from a have "history_of (upsert_calls calls tasks) k =
          history_of tasks k @ map (message \<circ> snd) calls"
    using history_of_upsert_calls [of calls k tasks] by simp
  with a t have "history task = map (message \<circ> snd) calls"
    by (simp add: history_of_def)
  with t show "\<exists>task. upsert_calls calls tasks k = Some task \<and>
                history task = map (message \<circ> snd) calls"
    by simp
qed

theorem upsert_task_creates_or_appends_witness:
  "upsert_task 1 (params_t1 user_hi) Map.empty =
     (\<lparr>task_id = ''t1'', status = \<lparr>state = SUBMITTED, timestamp = 1\<rparr>, history = [user_hi]\<rparr>,
      [''t1'' \<mapsto>
        \<lparr>task_id = ''t1'', status = \<lparr>state = SUBMITTED, timestamp = 1\<rparr>, history = [user_hi]\<rparr>])
   \<and> fst (upsert_task 2 (params_t1 user_again)
        [''t1'' \<mapsto>
          \<lparr>task_id = ''t1'', status = \<lparr>state = SUBMITTED, timestamp = 1\<rparr>,
           history = [user_hi]\<rparr>]) =
       \<lparr>task_id = ''t1'', status = \<lparr>state = SUBMITTED, timestamp = 1\<rparr>,
        history = [user_hi, user_again]\<rparr>
   \<and> history_of (upsert_calls [(1, params_t1 user_hi), (2, params_t1 user_again)] Map.empty) ''t1''
       = [user_hi, user_again]
   \<and> (\<exists>task. upsert_calls [(1, params_t1 user_hi), (2, params_t1 user_again)] Map.empty ''t1''
                = Some task \<and> history task = [user_hi, user_again])"
  using upsert_task_creates_or_appends
          [of Map.empty "params_t1 user_hi" 1
              "[(1, params_t1 user_hi), (2, params_t1 user_again)]" "''t1''"]
        upsert_task_creates_or_appends
          [of "[''t1'' \<mapsto> \<lparr>task_id = ''t1'', status = \<lparr>state = SUBMITTED, timestamp = 1\<rparr>,
                              history = [user_hi]\<rparr>]"
              "params_t1 user_again" 2 "[]" "''t1''"]
  by (simp add: params_t1_def history_of_def)

section \<open>The task store: queries\<close>

text \<open>The fields of the example inputs.\<close>

lemma get_t1_simps:
  "get_request_id (get_t1 n) = ''req-2''"
  "query_id (get_params (get_t1 n)) = ''t1''"
  "historyLength (get_params (get_t1 n)) = n"
  by (simp_all add: get_t1_def)

lemma params_t1_simps:
  "send_id (params_t1 m) = ''t1''"
  "sessionId (params_t1 m) = ''s1''"
  "message (params_t1 m) = m"
  by (simp_all add: params_t1_def)

lemma send_t1_simps:
  "send_request_id send_t1 = ''req-1''"
  "send_params send_t1 = params_t1 user_hi"
  by (simp_all add: send_t1_def)

text \<open>
  The slice \<^verbatim>\<open>history[-n:]\<close>: for a positive \<open>n\<close> it is the last \<open>min n L\<close> messages,
  for \<open>n = 0\<close> it is \<^verbatim>\<open>history[0:]\<close>, the whole list.
\<close>

lemma slice_from_zero: "slice_from xs 0 = xs"
  by (simp add: slice_from_def)

lemma slice_from_last:
  "0 < n \<Longrightarrow> slice_from xs (- n) = drop (length xs - nat (min n (int (length xs)))) xs"
  by (auto simp add: slice_from_def Let_def min_def max_def nat_diff_distrib' intro: arg_cong)

lemma slice_from_last_length:
  "0 < n \<Longrightarrow> length (slice_from xs (- n)) = nat (min n (int (length xs)))"
  by (auto simp add: slice_from_def Let_def min_def max_def)

lemma slice_from_whole: "int (length xs) \<le> n \<Longrightarrow> slice_from xs (- n) = xs"
  by (auto simp add: slice_from_def Let_def min_def max_def)

lemma on_get_task_found:
  "tasks (query_id (get_params request)) = Some task \<Longrightarrow>
   on_get_task request tasks =
     (Inr \<lparr>response_id = Some (get_request_id request),
           result = Some (task\<lparr>history :=
                      (case historyLength (get_params request) of
                         None \<Rightarrow> history task
                       | Some n \<Rightarrow> slice_from (history task) (- n))\<rparr>),
           error = None\<rparr>, tasks)"
  by (simp add: on_get_task_def Let_def split: option.split)

lemma on_get_task_positive_historyLength:
  "tasks (query_id (get_params request)) = Some task \<Longrightarrow>
   historyLength (get_params request) = Some n \<Longrightarrow> 0 < n \<Longrightarrow>
   fst (on_get_task request tasks) =
     Inr \<lparr>response_id = Some (get_request_id request),
          result = Some (task\<lparr>history :=
                     drop (length (history task) - nat (min n (int (length (history task)))))
                       (history task)\<rparr>),
          error = None\<rparr>"
  by (simp add: on_get_task_found slice_from_last)

lemma on_get_task_no_historyLength:
  "tasks (query_id (get_params request)) = Some task \<Longrightarrow>
   historyLength (get_params request) = None \<Longrightarrow>
   fst (on_get_task request tasks) =
     Inr \<lparr>response_id = Some (get_request_id request), result = Some task, error = None\<rparr>"
  by (simp add: on_get_task_found)

lemma on_get_task_zero_historyLength:
  "tasks (query_id (get_params request)) = Some task \<Longrightarrow>
   historyLength (get_params request) = Some 0 \<Longrightarrow>
   fst (on_get_task request tasks) =
     Inr \<lparr>response_id = Some (get_request_id request), result = Some task, error = None\<rparr>"
  by (simp add: on_get_task_found slice_from_zero)

text \<open>
  Claim C3. A query with a positive \<^verbatim>\<open>historyLength\<close> \<open>n\<close> returns the last
  \<open>min n L\<close> messages and a query without one returns the whole history
  (\<open>on_get_task_positive_historyLength\<close>, \<open>on_get_task_no_historyLength\<close>). The claim
  also wants \<open>n = 0\<close> to return the empty history: there the code computes
  \<^verbatim>\<open>history[-0:]\<close>, and the query of the two-message task \<^verbatim>\<open>t1\<close> with
  \<^verbatim>\<open>historyLength = 0\<close> returns both messages.
\<close>

theorem on_get_task_historyLength_zero_returns_all:
  "fst (on_get_task (get_t1 (Some 0)) [''t1'' \<mapsto> task_t1]) =
     Inr \<lparr>response_id = Some ''req-2'',
          result = Some \<lparr>task_id = ''t1'', status = \<lparr>state = COMPLETED, timestamp = 2\<rparr>,
                         history = [user_hi, agent_hello]\<rparr>,
          error = None\<rparr>
   \<and> history task_t1 = [user_hi, agent_hello]"
  by (simp add: on_get_task_def get_t1_def task_t1_def slice_from_def Let_def)

lemma on_get_task_t1_examples:
  "fst (on_get_task (get_t1 (Some 1)) [''t1'' \<mapsto> task_t1]) =
     Inr \<lparr>response_id = Some ''req-2'', result = Some (task_t1\<lparr>history := [agent_hello]\<rparr>),
          error = None\<rparr>"
  "fst (on_get_task (get_t1 (Some 5)) [''t1'' \<mapsto> task_t1]) =
     Inr \<lparr>response_id = Some ''req-2'', result = Some task_t1, error = None\<rparr>"
  "fst (on_get_task (get_t1 None) [''t1'' \<mapsto> task_t1]) =
     Inr \<lparr>response_id = Some ''req-2'', result = Some task_t1, error = None\<rparr>"
  by (simp_all add: on_get_task_def get_t1_def task_t1_def slice_from_def Let_def)

text \<open>
  A query for an id that names no task: the error of the response is built from a
  message alone, so its validation raises, and the exception is the outcome of
  \<^verbatim>\<open>on_get_task\<close>. The dictionary stays as it was: the id still names no task, and an
  upsert on that id afterwards creates the task as a first call does.
\<close>

lemma not_found_error_invalid:
  "JSONRPCError_validate
     \<lparr>given_code = None, given_message = Some ''Task not found'', given_data = None\<rparr> =
   Inl (ValidationError ''error.code: Field required'')"
  by (simp add: JSONRPCError_validate_def)

lemma on_get_task_unknown_id:
  assumes "tasks (query_id (get_params request)) = None"
  shows "on_get_task request tasks =
           (Inl (ValidationError ''error.code: Field required''), tasks)"
  using assms by (simp add: on_get_task_def Let_def not_found_error_invalid)

lemma on_get_task_unknown_id_store:
  assumes "tasks (query_id (get_params request)) = None"
    and "send_id params = query_id (get_params request)"
  shows "snd (on_get_task request tasks) = tasks"
    and "snd (on_get_task request tasks) (query_id (get_params request)) = None"
    and "upsert_task now params (snd (on_get_task request tasks)) =
           (\<lparr>task_id = send_id params, status = \<lparr>state = SUBMITTED, timestamp = now\<rparr>,
             history = [message params]\<rparr>,
            tasks(send_id params \<mapsto>
              \<lparr>task_id = send_id params, status = \<lparr>state = SUBMITTED, timestamp = now\<rparr>,
               history = [message params]\<rparr>))"
proof -
  from assms(1) show unchanged: "snd (on_get_task request tasks) = tasks"
    by (simp add: on_get_task_unknown_id)
  from assms(1) show "snd (on_get_task request tasks) (query_id (get_params request)) = None"
    by (simp add: unchanged)
  from assms have "tasks (send_id params) = None" by simp
  then show "upsert_task now params (snd (on_get_task request tasks)) =
           (\<lparr>task_id = send_id params, status = \<lparr>state = SUBMITTED, timestamp = now\<rparr>,
             history = [message params]\<rparr>,
            tasks(send_id params \<mapsto>
              \<lparr>task_id = send_id params, status = \<lparr>state = SUBMITTED, timestamp = now\<rparr>,
               history = [message params]\<rparr>))"
    by (simp add: unchanged upsert_task_absent)
qed

text \<open>
  Had the error been given a code with its message, the response of the claim would be
  the value: an error that carries the message, and no result.
\<close>

lemma not_found_error_with_code:
  "JSONRPCError_validate
     \<lparr>given_code = Some c, given_message = Some ''Task not found'', given_data = None\<rparr> =
   Inr \<lparr>error_code = c, error_message = ''Task not found'', error_data = None\<rparr>"
  by (simp add: JSONRPCError_validate_def)

text \<open>
  Claim C9. The claim wants a query for an unknown id to return a response whose error
  carries the message \<^verbatim>\<open>Task not found\<close>, with no result and the store unchanged. The
  code builds that error from \<^verbatim>\<open>{"message": "Task not found"}\<close> without the code that
  an error must have: for the query of \<^verbatim>\<open>t1\<close> on the empty store the construction of
  the response raises \<^verbatim>\<open>ValidationError\<close> and no response is returned. The store is
  unchanged, and the upsert that follows creates the task.
\<close>

theorem on_get_task_unknown_id_raises:
  "on_get_task (get_t1 None) Map.empty =
     (Inl (ValidationError ''error.code: Field required''), Map.empty)
   \<and> upsert_task 1 (params_t1 user_hi) (snd (on_get_task (get_t1 None) Map.empty)) =
       (\<lparr>task_id = ''t1'', status = \<lparr>state = SUBMITTED, timestamp = 1\<rparr>, history = [user_hi]\<rparr>,
        [''t1'' \<mapsto>
          \<lparr>task_id = ''t1'', status = \<lparr>state = SUBMITTED, timestamp = 1\<rparr>,
           history = [user_hi]\<rparr>])"
proof -
  have unknown: "(Map.empty :: task_store) (query_id (get_params (get_t1 None))) = None"
    by simp
  have raises: "on_get_task (get_t1 None) Map.empty =
     (Inl (ValidationError ''error.code: Field required''), Map.empty)"
    using unknown by (rule on_get_task_unknown_id)
  have "upsert_task 1 (params_t1 user_hi) Map.empty =
       (\<lparr>task_id = ''t1'', status = \<lparr>state = SUBMITTED, timestamp = 1\<rparr>, history = [user_hi]\<rparr>,
        [''t1'' \<mapsto>
          \<lparr>task_id = ''t1'', status = \<lparr>state = SUBMITTED, timestamp = 1\<rparr>,
           history = [user_hi]\<rparr>])"
    by (simp add: upsert_task_def params_t1_def Let_def)
  with raises show ?thesis by simp
qed

text \<open>
  Claim C10. An upsert on an id that names a task changes nothing of the stored task but
  its history: id and status (state and timestamp) are those from before the call, and
  the history is the one from before with the message of the call at its end.
\<close>

theorem upsert_task_existing_frame:
  assumes "tasks (send_id params) = Some task"
  shows "(case upsert_task now params tasks of
            (task', tasks') \<Rightarrow>
              tasks' (send_id params) = Some task'
              \<and> task_id task' = task_id task
              \<and> status task' = status task
              \<and> state (status task') = state (status task)
              \<and> timestamp (status task') = timestamp (status task)
              \<and> history task' = history task @ [message params]
              \<and> task' = task\<lparr>history := history task @ [message params]\<rparr>)"
proof -
  let ?task' = "task\<lparr>history := history task @ [message params]\<rparr>"
  from assms have run:
    "upsert_task now params tasks = (?task', tasks(send_id params \<mapsto> ?task'))"
    by (rule upsert_task_present)
  have "task_id ?task' = task_id task" and "status ?task' = status task"
    and "history ?task' = history task @ [message params]"
    by simp_all
  then show ?thesis
    unfolding run by simp
qed

theorem upsert_task_existing_frame_witness:
  "(case upsert_task 7 (params_t1 user_again) [''t1'' \<mapsto> task_t1] of
      (task', tasks') \<Rightarrow>
        tasks' ''t1'' = Some task'
        \<and> task_id task' = ''t1''
        \<and> status task' = \<lparr>state = COMPLETED, timestamp = 2\<rparr>
        \<and> history task' = [user_hi, agent_hello, user_again])"
  using upsert_task_existing_frame [of "[''t1'' \<mapsto> task_t1]" "params_t1 user_again" task_t1 7]
  by (simp add: params_t1_def task_t1_def split: prod.splits)

section \<open>The task managers: sending a task\<close>

lemma AgentTaskManager_on_send_task_reply:
  assumes "parts (message (send_params request)) = p # ps"
    and "invoke (part_text p) (sessionId (send_params request)) = Inr r"
  shows "AgentTaskManager_on_send_task invoke t_upsert t_completed request tasks =
     (let task = fst (upsert_task t_upsert (send_params request) tasks);
          task' = task\<lparr>status := \<lparr>state = COMPLETED, timestamp = t_completed\<rparr>,
                       history := history task @ [\<lparr>role = Agent, parts = [TextPart r]\<rparr>]\<rparr>
      in (Inr \<lparr>response_id = Some (send_request_id request), result = Some task',
                error = None\<rparr>,
          (snd (upsert_task t_upsert (send_params request) tasks))
            (send_id (send_params request) \<mapsto> task')))"
  using assms
  by (simp add: AgentTaskManager_on_send_task_def AgentTaskManager_get_user_query_def Let_def
           split: prod.split)

lemma GreetingTaskManager_on_send_task_reply:
  assumes "parts (message (send_params request)) = p # ps"
    and "invoke (part_text p) (sessionId (send_params request)) = Inr r"
  shows "GreetingTaskManager_on_send_task invoke t_upsert t_completed request tasks =
     (let task = fst (upsert_task t_upsert (send_params request) tasks);
          task' = task\<lparr>status := \<lparr>state = COMPLETED, timestamp = t_completed\<rparr>,
                       history := history task @ [\<lparr>role = Agent, parts = [TextPart r]\<rparr>]\<rparr>
      in (Inr \<lparr>response_id = Some (send_request_id request), result = Some task',
                error = None\<rparr>,
          (snd (upsert_task t_upsert (send_params request) tasks))
            (send_id (send_params request) \<mapsto> task')))"
  using assms
  by (simp add: GreetingTaskManager_on_send_task_def GreetingTaskManager_get_user_text_def Let_def
           split: prod.split)

lemma history_fst_upsert_task:
  "history (fst (upsert_task now params tasks)) =
     history_of tasks (send_id params) @ [message params]"
  by (simp add: upsert_task_def history_of_def Let_def split: option.split)

lemma completed_reply_task:
  "state (status ((fst (upsert_task t_upsert params tasks))
             \<lparr>status := \<lparr>state = COMPLETED, timestamp = t_completed\<rparr>,
              history := history (fst (upsert_task t_upsert params tasks))
                           @ [\<lparr>role = Agent, parts = [TextPart r]\<rparr>]\<rparr>)) = COMPLETED"
  "history ((fst (upsert_task t_upsert params tasks))
             \<lparr>status := \<lparr>state = COMPLETED, timestamp = t_completed\<rparr>,
              history := history (fst (upsert_task t_upsert params tasks))
                           @ [\<lparr>role = Agent, parts = [TextPart r]\<rparr>]\<rparr>) =
     history_of tasks (send_id params) @ [message params, \<lparr>role = Agent, parts = [TextPart r]\<rparr>]"
  by (simp_all add: history_fst_upsert_task)

text \<open>
  Claim C2. For a send-task request whose message has a first part (the user text) and
  a reasoner that returns the reply \<open>r\<close> for that text and the session id of the request,
  \<^verbatim>\<open>on_send_task\<close> of the tell-time manager and of the greeting manager returns a
  response with the id of the request that wraps the stored task; the state of the task
  is \<^verbatim>\<open>completed\<close> and its history is the history from before the call followed by the
  message of the request and an agent message with the text \<open>r\<close>. For the fresh task
  \<^verbatim>\<open>t1\<close> with the user message \<^verbatim>\<open>hi\<close> and a stub reasoner that returns \<^verbatim>\<open>hello\<close>, the
  history is the user message \<^verbatim>\<open>hi\<close> followed by the agent message \<^verbatim>\<open>hello\<close>.
\<close>

theorem on_send_task_completes_with_reply:
  assumes "parts (message (send_params request)) = p # ps"
    and "invoke (part_text p) (sessionId (send_params request)) = Inr r"
  shows "(\<exists>task tasks'.
            AgentTaskManager_on_send_task invoke t_upsert t_completed request tasks =
              (Inr \<lparr>response_id = Some (send_request_id request), result = Some task,
                    error = None\<rparr>, tasks')
            \<and> tasks' (send_id (send_params request)) = Some task
            \<and> state (status task) = COMPLETED
            \<and> history task =
                history_of tasks (send_id (send_params request))
                  @ [message (send_params request), \<lparr>role = Agent, parts = [TextPart r]\<rparr>])
       \<and> (\<exists>task tasks'.
            GreetingTaskManager_on_send_task invoke t_upsert t_completed request tasks =
              (Inr \<lparr>response_id = Some (send_request_id request), result = Some task,
                    error = None\<rparr>, tasks')
            \<and> tasks' (send_id (send_params request)) = Some task
            \<and> state (status task) = COMPLETED
            \<and> history task =
                history_of tasks (send_id (send_params request))
                  @ [message (send_params request), \<lparr>role = Agent, parts = [TextPart r]\<rparr>])"
proof -
  let ?task = "fst (upsert_task t_upsert (send_params request) tasks)"
  let ?task' = "?task\<lparr>status := \<lparr>state = COMPLETED, timestamp = t_completed\<rparr>,
                       history := history ?task @ [\<lparr>role = Agent, parts = [TextPart r]\<rparr>]\<rparr>"
  let ?tasks' = "(snd (upsert_task t_upsert (send_params request) tasks))
                   (send_id (send_params request) \<mapsto> ?task')"
  have agent: "AgentTaskManager_on_send_task invoke t_upsert t_completed request tasks =
      (Inr \<lparr>response_id = Some (send_request_id request), result = Some ?task',
            error = None\<rparr>, ?tasks')"
    using assms
      AgentTaskManager_on_send_task_reply [of request p ps invoke r t_upsert t_completed tasks]
    by (simp add: Let_def)
  have greeting: "GreetingTaskManager_on_send_task invoke t_upsert t_completed request tasks =
      (Inr \<lparr>response_id = Some (send_request_id request), result = Some ?task',
            error = None\<rparr>, ?tasks')"
    using assms
      GreetingTaskManager_on_send_task_reply [of request p ps invoke r t_upsert t_completed tasks]
    by (simp add: Let_def)
  have stored: "?tasks' (send_id (send_params request)) = Some ?task'"
    by simp
  note props = completed_reply_task
    [where t_upsert = t_upsert and params = "send_params request" and tasks = tasks
       and t_completed = t_completed and r = r]
  from agent stored props have "\<exists>task tasks'.
            AgentTaskManager_on_send_task invoke t_upsert t_completed request tasks =
              (Inr \<lparr>response_id = Some (send_request_id request), result = Some task,
                    error = None\<rparr>, tasks')
            \<and> tasks' (send_id (send_params request)) = Some task
            \<and> state (status task) = COMPLETED
            \<and> history task =
                history_of tasks (send_id (send_params request))
                  @ [message (send_params request), \<lparr>role = Agent, parts = [TextPart r]\<rparr>]"
    by blast
  moreover from greeting stored props have "\<exists>task tasks'.
            GreetingTaskManager_on_send_task invoke t_upsert t_completed request tasks =
              (Inr \<lparr>response_id = Some (send_request_id request), result = Some task,
                    error = None\<rparr>, tasks')
            \<and> tasks' (send_id (send_params request)) = Some task
            \<and> state (status task) = COMPLETED
            \<and> history task =
                history_of tasks (send_id (send_params request))
                  @ [message (send_params request), \<lparr>role = Agent, parts = [TextPart r]\<rparr>]"
    by blast
  ultimately show ?thesis by (rule conjI)
qed

theorem on_send_task_completes_with_reply_witness:
  "(\<exists>task tasks'.
      AgentTaskManager_on_send_task stub_reasoner 1 2 send_t1 Map.empty =
        (Inr \<lparr>response_id = Some ''req-1'', result = Some task, error = None\<rparr>, tasks')
      \<and> tasks' ''t1'' = Some task
      \<and> state (status task) = COMPLETED
      \<and> history task =
          [\<lparr>role = User, parts = [TextPart ''hi'']\<rparr>, \<lparr>role = Agent, parts = [TextPart ''hello'']\<rparr>])
   \<and> (\<exists>task tasks'.
      GreetingTaskManager_on_send_task stub_reasoner 1 2 send_t1 Map.empty =
        (Inr \<lparr>response_id = Some ''req-1'', result = Some task, error = None\<rparr>, tasks')
      \<and> tasks' ''t1'' = Some task
      \<and> state (status task) = COMPLETED
      \<and> history task =
          [\<lparr>role = User, parts = [TextPart ''hi'']\<rparr>, \<lparr>role = Agent, parts = [TextPart ''hello'']\<rparr>])"
proof -
  have p: "parts (message (send_params send_t1)) = TextPart ''hi'' # []"
    by (simp add: send_t1_simps params_t1_simps user_hi_def)
  have r: "stub_reasoner (part_text (TextPart ''hi'')) (sessionId (send_params send_t1)) = Inr ''hello''"
    by (simp add: stub_reasoner_def)
  have m: "message (send_params send_t1) = \<lparr>role = User, parts = [TextPart ''hi'']\<rparr>"
    by (simp add: send_t1_simps params_t1_simps user_hi_def)
  have k: "send_id (send_params send_t1) = ''t1''" "send_request_id send_t1 = ''req-1''"
    by (simp_all add: send_t1_simps params_t1_simps)
  show ?thesis
    using on_send_task_completes_with_reply
            [of send_t1 "TextPart ''hi''" "[]" stub_reasoner "''hello''" 1 2 Map.empty, OF p r]
    by (simp add: m k history_of_def)
qed

text \<open>The end-to-end example as a value, and the two paths on which the method raises.\<close>

lemma on_send_task_t1_value:
  "AgentTaskManager_on_send_task stub_reasoner 1 2 send_t1 Map.empty =
     (Inr \<lparr>response_id = Some ''req-1'', result = Some task_t1, error = None\<rparr>,
      [''t1'' \<mapsto> task_t1])"
  by (simp add: AgentTaskManager_on_send_task_def AgentTaskManager_get_user_query_def
        upsert_task_def send_t1_def params_t1_def user_hi_def agent_hello_def task_t1_def
        stub_reasoner_def Let_def)

lemma on_send_task_without_parts:
  assumes "parts (message (send_params request)) = []"
  shows "fst (AgentTaskManager_on_send_task invoke t_upsert t_completed request tasks) =
           Inl (IndexError ''list index out of range'')"
    and "fst (GreetingTaskManager_on_send_task invoke t_upsert t_completed request tasks) =
           Inl (IndexError ''list index out of range'')"
  using assms
  by (simp_all add: AgentTaskManager_on_send_task_def AgentTaskManager_get_user_query_def
        GreetingTaskManager_on_send_task_def GreetingTaskManager_get_user_text_def
        split: prod.split)

lemma on_send_task_reasoner_raises:
  assumes "parts (message (send_params request)) = p # ps"
    and "invoke (part_text p) (sessionId (send_params request)) = Inl e"
  shows "AgentTaskManager_on_send_task invoke t_upsert t_completed request tasks =
           (Inl e, snd (upsert_task t_upsert (send_params request) tasks))"
    and "GreetingTaskManager_on_send_task invoke t_upsert t_completed request tasks =
           (Inl e, snd (upsert_task t_upsert (send_params request) tasks))"
  using assms
  by (simp_all add: AgentTaskManager_on_send_task_def AgentTaskManager_get_user_query_def
        GreetingTaskManager_on_send_task_def GreetingTaskManager_get_user_text_def
        split: prod.split)

section \<open>The server: POST /\<close>

text \<open>The paths through the \<^verbatim>\<open>try\<close> block of \<^verbatim>\<open>_handle_request\<close>.\<close>

lemma handle_request_try_cases:
  "handle_request_try (Inl e) validate_python on_send_task manager = (Inl e, manager)"
  "validate_python body = Inl e \<Longrightarrow>
     handle_request_try (Inr body) validate_python on_send_task manager = (Inl e, manager)"
  "validate_python body = Inr (GetTask get_request) \<Longrightarrow>
     handle_request_try (Inr body) validate_python on_send_task manager =
       (Inl (ValueError (''Unsupported A2A method: '' @ type_repr (GetTask get_request))), manager)"
  "validate_python body = Inr (SendTask send_request) \<Longrightarrow>
     on_send_task send_request manager = (Inl e, manager') \<Longrightarrow>
     handle_request_try (Inr body) validate_python on_send_task manager = (Inl e, manager')"
  "validate_python body = Inr (SendTask send_request) \<Longrightarrow>
     on_send_task send_request manager = (Inr response, manager') \<Longrightarrow>
     handle_request_try (Inr body) validate_python on_send_task manager =
       (Inr \<lparr>status_code = 200, content = response\<rparr>, manager')"
  by (simp_all add: handle_request_try_def create_response_def)

lemma handle_request_get_task:
  "validate_python body = Inr (GetTask get_request) \<Longrightarrow>
   handle_request (Inr body) validate_python on_send_task manager =
     (\<lparr>status_code = 400,
       content = \<lparr>response_id = None, result = None,
                  error = Some (InternalError (''Unsupported A2A method: <class '' @ [CHR 0x27]
                      @ ''models.request.GetTaskRequest'' @ [CHR 0x27] @ ''>''))\<rparr>\<rparr>,
      manager)"
  by (simp add: handle_request_def handle_request_try_cases)

lemma handle_request_send_task:
  "validate_python body = Inr (SendTask send_request) \<Longrightarrow>
   on_send_task send_request manager = (Inr response, manager') \<Longrightarrow>
   handle_request (Inr body) validate_python on_send_task manager =
     (\<lparr>status_code = 200, content = response\<rparr>, manager')"
  by (simp add: handle_request_def handle_request_try_cases)

text \<open>
  Claim C4. The claim wants a well-formed get-task request to be dispatched to
  \<^verbatim>\<open>on_get_task\<close> of the task manager. The handler dispatches a \<^verbatim>\<open>SendTaskRequest\<close> only:
  a body that validates as the get-task request for the stored task \<^verbatim>\<open>t1\<close> is answered
  with status 400, a null id and the message \<^verbatim>\<open>Unsupported A2A method\<close>, where
  \<^verbatim>\<open>on_get_task\<close> of the manager answers the same request with the task.
\<close>

theorem handle_request_get_task_not_dispatched:
  "handle_request (Inr ()) (\<lambda>body. Inr (GetTask (get_t1 None)))
       (AgentTaskManager_on_send_task stub_reasoner 3 4) [''t1'' \<mapsto> task_t1] =
     (\<lparr>status_code = 400,
       content = \<lparr>response_id = None, result = None,
                  error = Some (InternalError (''Unsupported A2A method: <class '' @ [CHR 0x27]
                      @ ''models.request.GetTaskRequest'' @ [CHR 0x27] @ ''>''))\<rparr>\<rparr>,
      [''t1'' \<mapsto> task_t1])
   \<and> fst (on_get_task (get_t1 None) [''t1'' \<mapsto> task_t1]) =
       Inr \<lparr>response_id = Some ''req-2'', result = Some task_t1, error = None\<rparr>"
  by (simp add: handle_request_get_task on_get_task_found get_t1_simps)

text \<open>
  Claim C5, as amended. A request that fails is answered with status 400 and a JSON-RPC
  body that has no result, the text of the exception as error message, and the id null:
  always null, also when the request was validated and its id is known. This holds for
  whatever exception leaves the \<^verbatim>\<open>try\<close> block, so for the handler's own
  \<^verbatim>\<open>Unsupported A2A method\<close> too, and in particular for a body that does not parse, a
  body that does not validate and an exception of \<^verbatim>\<open>on_send_task\<close>.
\<close>

theorem handle_request_failure_400_null_id:
  "(handle_request_try request_json validate_python on_send_task manager = (Inl e, manager') \<longrightarrow>
      handle_request request_json validate_python on_send_task manager =
        (\<lparr>status_code = 400,
          content = \<lparr>response_id = None, result = None,
                     error = Some (InternalError (str e))\<rparr>\<rparr>, manager'))
   \<and> (request_json = Inl e \<longrightarrow>
      handle_request request_json validate_python on_send_task manager =
        (\<lparr>status_code = 400,
          content = \<lparr>response_id = None, result = None,
                     error = Some (InternalError (str e))\<rparr>\<rparr>, manager))
   \<and> (request_json = Inr body \<and> validate_python body = Inl e \<longrightarrow>
      handle_request request_json validate_python on_send_task manager =
        (\<lparr>status_code = 400,
          content = \<lparr>response_id = None, result = None,
                     error = Some (InternalError (str e))\<rparr>\<rparr>, manager))
   \<and> (request_json = Inr body \<and> validate_python body = Inr (SendTask send_request)
        \<and> on_send_task send_request manager = (Inl e, manager') \<longrightarrow>
      handle_request request_json validate_python on_send_task manager =
        (\<lparr>status_code = 400,
          content = \<lparr>response_id = None, result = None,
                     error = Some (InternalError (str e))\<rparr>\<rparr>, manager'))"
proof (intro conjI impI)
  assume "handle_request_try request_json validate_python on_send_task manager = (Inl e, manager')"
  then show "handle_request request_json validate_python on_send_task manager =
        (\<lparr>status_code = 400,
          content = \<lparr>response_id = None, result = None,
                     error = Some (InternalError (str e))\<rparr>\<rparr>, manager')"
    by (simp add: handle_request_def)
next
  assume "request_json = Inl e"
  then show "handle_request request_json validate_python on_send_task manager =
        (\<lparr>status_code = 400,
          content = \<lparr>response_id = None, result = None,
                     error = Some (InternalError (str e))\<rparr>\<rparr>, manager)"
    by (simp add: handle_request_def handle_request_try_cases(1))
next
  assume "request_json = Inr body \<and> validate_python body = Inl e"
  then show "handle_request request_json validate_python on_send_task manager =
        (\<lparr>status_code = 400,
          content = \<lparr>response_id = None, result = None,
                     error = Some (InternalError (str e))\<rparr>\<rparr>, manager)"
    by (simp add: handle_request_def handle_request_try_cases(2))
next
  assume "request_json = Inr body \<and> validate_python body = Inr (SendTask send_request)
        \<and> on_send_task send_request manager = (Inl e, manager')"
  then show "handle_request request_json validate_python on_send_task manager =
        (\<lparr>status_code = 400,
          content = \<lparr>response_id = None, result = None,
                     error = Some (InternalError (str e))\<rparr>\<rparr>, manager')"
    by (simp add: handle_request_def handle_request_try_cases(4))
qed

text \<open>Every response has status 200 or status 400, and one with status 400 has a null id.\<close>

lemma handle_request_status:
  "status_code (fst (handle_request request_json validate_python on_send_task manager)) = 200
   \<or> (status_code (fst (handle_request request_json validate_python on_send_task manager)) = 400
      \<and> response_id (content (fst (handle_request request_json validate_python on_send_task manager))) = None)"
  by (simp add: handle_request_def handle_request_try_def create_response_def
        split: sum.split prod.split A2ARequest.split)

text \<open>
  Claim C5 as stated fails: the send-task request with id \<^verbatim>\<open>req-1\<close> validates, so its id
  is known; its reasoner raises, and the response carries the id null.
\<close>

theorem handle_request_error_id_counterexample:
  "send_request_id send_t1 = ''req-1''
   \<and> fst (handle_request (Inr ()) (\<lambda>body. Inr (SendTask send_t1))
            (AgentTaskManager_on_send_task failing_reasoner 1 2) Map.empty) =
       \<lparr>status_code = 400,
        content = \<lparr>response_id = None, result = None,
                   error = Some (InternalError ''model unavailable'')\<rparr>\<rparr>
   \<and> response_id (content (fst (handle_request (Inr ()) (\<lambda>body. Inr (SendTask send_t1))
            (AgentTaskManager_on_send_task failing_reasoner 1 2) Map.empty)))
       \<noteq> Some (send_request_id send_t1)"
  by (simp add: handle_request_def handle_request_try_def AgentTaskManager_on_send_task_def
        AgentTaskManager_get_user_query_def upsert_task_def Let_def failing_reasoner_def
        send_t1_def params_t1_def user_hi_def)

lemma failing_reasoner_t1:
  "AgentTaskManager_on_send_task failing_reasoner 1 2 send_t1 Map.empty =
     (Inl (Raised ''model unavailable''),
      [''t1'' \<mapsto> \<lparr>task_id = ''t1'', status = \<lparr>state = SUBMITTED, timestamp = 1\<rparr>,
                       history = [user_hi]\<rparr>])"
  by (simp add: AgentTaskManager_on_send_task_def AgentTaskManager_get_user_query_def
        upsert_task_def Let_def failing_reasoner_def send_t1_def params_t1_def user_hi_def)

theorem handle_request_failure_400_null_id_witness:
  "handle_request (Inl (Raised ''Expecting value'')) (\<lambda>body :: unit. Inr (SendTask send_t1))
       (AgentTaskManager_on_send_task stub_reasoner 1 2) Map.empty =
     (\<lparr>status_code = 400,
       content = \<lparr>response_id = None, result = None,
                  error = Some (InternalError ''Expecting value'')\<rparr>\<rparr>, Map.empty)
   \<and> handle_request (Inr ()) (\<lambda>body. Inl (Raised ''Field required''))
       (AgentTaskManager_on_send_task stub_reasoner 1 2) Map.empty =
     (\<lparr>status_code = 400,
       content = \<lparr>response_id = None, result = None,
                  error = Some (InternalError ''Field required'')\<rparr>\<rparr>, Map.empty)
   \<and> handle_request (Inr ()) (\<lambda>body. Inr (SendTask send_t1))
       (AgentTaskManager_on_send_task failing_reasoner 1 2) Map.empty =
     (\<lparr>status_code = 400,
       content = \<lparr>response_id = None, result = None,
                  error = Some (InternalError ''model unavailable'')\<rparr>\<rparr>,
      [''t1'' \<mapsto> \<lparr>task_id = ''t1'', status = \<lparr>state = SUBMITTED, timestamp = 1\<rparr>,
                       history = [user_hi]\<rparr>])"
  using handle_request_failure_400_null_id
          [where request_json = "Inl (Raised ''Expecting value'')"
             and e = "Raised ''Expecting value''"
             and validate_python = "\<lambda>body :: unit. Inr (SendTask send_t1)"
             and on_send_task = "AgentTaskManager_on_send_task stub_reasoner 1 2"
             and manager = Map.empty]
        handle_request_failure_400_null_id
          [where request_json = "Inr ()" and body = "()"
             and e = "Raised ''Field required''"
             and validate_python = "\<lambda>body. Inl (Raised ''Field required'')"
             and on_send_task = "AgentTaskManager_on_send_task stub_reasoner 1 2"
             and manager = Map.empty]
        handle_request_failure_400_null_id
          [where request_json = "Inr ()" and body = "()"
             and e = "Raised ''model unavailable''"
             and send_request = send_t1
             and validate_python = "\<lambda>body. Inr (SendTask send_t1)"
             and on_send_task = "AgentTaskManager_on_send_task failing_reasoner 1 2"
             and manager = Map.empty
             and manager' = "[''t1'' \<mapsto> \<lparr>task_id = ''t1'',
                               status = \<lparr>state = SUBMITTED, timestamp = 1\<rparr>,
                               history = [user_hi]\<rparr>]"]
        failing_reasoner_t1
  by simp

section \<open>The orchestrator: choosing the agent\<close>

text \<open>
  The dictionary of connectors holds, under each name, the connector of the last card
  of that name.
\<close>

lemma find_snoc:
  "find P (xs @ [x]) = (case find P xs of None \<Rightarrow> (if P x then Some x else None) | Some y \<Rightarrow> Some y)"
  by (induction xs) simp_all

lemma fold_connectors:
  "fold (\<lambda>agent_card connectors. connectors(name agent_card \<mapsto> connector_for agent_card))
     agent_cards m n =
   (case find (\<lambda>agent_card. name agent_card = n) (rev agent_cards) of
      None \<Rightarrow> m n
    | Some agent_card \<Rightarrow> Some (connector_for agent_card))"
proof (induction agent_cards arbitrary: m)
  case Nil
  show ?case by simp
next
  case (Cons c cs)
  let ?put = "\<lambda>agent_card connectors.
                connectors(name agent_card \<mapsto> connector_for agent_card)"
  let ?named = "\<lambda>agent_card. name agent_card = n"
  have "fold ?put (c # cs) m n = fold ?put cs (m(name c \<mapsto> connector_for c)) n"
    by simp
  also have "\<dots> = (case find ?named (rev cs) of
                       None \<Rightarrow> (m(name c \<mapsto> connector_for c)) n
                     | Some agent_card \<Rightarrow> Some (connector_for agent_card))"
    by (rule Cons.IH)
  also have "\<dots> = (case find ?named (rev (c # cs)) of
                       None \<Rightarrow> m n
                     | Some agent_card \<Rightarrow> Some (connector_for agent_card))"
    by (simp add: find_snoc split: option.split)
  finally show ?case .
qed

lemma connectors_init_lookup:
  "connectors_init agent_cards n =
     map_option connector_for (find (\<lambda>agent_card. name agent_card = n) (rev agent_cards))"
  by (simp add: connectors_init_def fold_connectors split: option.split)

lemma connectors_init_dom: "dom (connectors_init agent_cards) = name ` set agent_cards"
proof -
  have "\<And>n. (connectors_init agent_cards n \<noteq> None) = (n \<in> name ` set agent_cards)"
    by (auto simp add: connectors_init_lookup find_None_iff image_iff)
  then show ?thesis by (auto simp add: dom_def)
qed

text \<open>
  \<^verbatim>\<open>_delegate_task\<close> of the orchestrator resolves the requested name by an exact,
  case-sensitive lookup among the names of the cards: a card of exactly that name gives
  its connector, and any other name raises \<^verbatim>\<open>Unknown agent\<close>.
\<close>

lemma delegate_task_exact_name:
  "delegate_task (connectors_init agent_cards) send_task uuid4 agent_name msg tool_state =
     (case find (\<lambda>agent_card. name agent_card = agent_name) (rev agent_cards) of
        None \<Rightarrow> (Inl (ValueError (''Unknown agent: '' @ agent_name)), tool_state)
      | Some agent_card \<Rightarrow>
          delegate_to send_task uuid4 (connector_for agent_card) msg tool_state)"
proof (cases "find (\<lambda>agent_card. name agent_card = agent_name) (rev agent_cards)")
  case None
  then have "connectors_init agent_cards agent_name = None"
    by (simp add: connectors_init_lookup)
  with None show ?thesis
    by (simp add: delegate_task_def)
next
  case (Some agent_card)
  then have "connectors_init agent_cards agent_name = Some (connector_for agent_card)"
    by (simp add: connectors_init_lookup)
  with Some show ?thesis
    by (simp add: delegate_task_def)
qed

lemma example_cards_names:
  "name tell_time_card = ''TellTimeAgent''"
  "name greeting_card = ''GreetingAgent''"
  "url tell_time_card = ''http://localhost:10000''"
  "url greeting_card = ''http://localhost:10001''"
  by (simp_all add: tell_time_card_def greeting_card_def)

lemma delegate_task_examples:
  "delegate_task (connectors_init [tell_time_card, greeting_card]) echo_send_task ''u-1''
       ''TellTimeAgent'' ''what time is it?'' Map.empty =
     (Inr ''TellTimeAgent'', [''session_id'' \<mapsto> ''u-1''])"
  "delegate_task (connectors_init [tell_time_card, greeting_card]) echo_send_task ''u-1''
       ''Weather'' ''what time is it?'' Map.empty =
     (Inl (ValueError ''Unknown agent: Weather''), Map.empty)"
  by (simp_all add: delegate_task_exact_name example_cards_names delegate_to_def
        echo_send_task_def connector_for_def)

text \<open>
  \<^verbatim>\<open>call_agent\<close> of the greeting agent, the other delegation of the repository, resolves
  the name as the claim says. Its first pass also takes a card whose id is the requested
  name; no card has an id, and the empty id equals the empty requested name only, so for
  every requested name that is not empty the card it settles on is the card of the
  claim's resolution.
\<close>

text \<open>\<open>str_contains s sub\<close> holds exactly when \<open>sub\<close> is a run of characters of \<open>s\<close>.\<close>

lemma take_is_prefix: "(take (length sub) s = sub) = (\<exists>ss. s = sub @ ss)"
proof
  assume "take (length sub) s = sub"
  then have "s = sub @ drop (length sub) s"
    by (metis append_take_drop_id)
  then show "\<exists>ss. s = sub @ ss" ..
next
  assume "\<exists>ss. s = sub @ ss"
  then show "take (length sub) s = sub" by auto
qed

lemma str_contains_iff: "str_contains s sub = (\<exists>ps ss. s = ps @ sub @ ss)"
proof (induction s)
  case Nil
  show ?case by auto
next
  case (Cons c s)
  have "(\<exists>ps ss. c # s = ps @ sub @ ss) =
        ((\<exists>ss. c # s = sub @ ss) \<or> (\<exists>ps ss. s = ps @ sub @ ss))"
  proof
    assume "\<exists>ps ss. c # s = ps @ sub @ ss"
    then obtain ps ss where eq: "c # s = ps @ sub @ ss" by blast
    show "(\<exists>ss. c # s = sub @ ss) \<or> (\<exists>ps ss. s = ps @ sub @ ss)"
    proof (cases ps)
      case Nil
      with eq show ?thesis by auto
    next
      case (Cons p ps')
      with eq have "s = ps' @ sub @ ss" by simp
      then show ?thesis by blast
    qed
  next
    assume "(\<exists>ss. c # s = sub @ ss) \<or> (\<exists>ps ss. s = ps @ sub @ ss)"
    then show "\<exists>ps ss. c # s = ps @ sub @ ss"
    proof
      assume "\<exists>ss. c # s = sub @ ss"
      then obtain ss where "c # s = [] @ sub @ ss" by auto
      then show ?thesis by blast
    next
      assume "\<exists>ps ss. s = ps @ sub @ ss"
      then obtain ps ss where "s = ps @ sub @ ss" by blast
      then have "c # s = (c # ps) @ sub @ ss" by simp
      then show ?thesis by blast
    qed
  qed
  then show ?case
    using Cons.IH take_is_prefix [of sub "c # s"] by simp
qed

lemma lower_empty: "lower [] = []" "(lower n = []) = (n = [])" "([] = lower n) = (n = [])"
  by (auto simp add: lower_def)

lemma matched_card_as_claimed:
  assumes "agent_name \<noteq> []"
  shows "matched_card cards agent_name = resolution_as_claimed cards agent_name"
proof -
  from assms have "lower (card_id c) \<noteq> lower agent_name" for c
    by (simp add: card_id_def lower_empty)
  then show ?thesis
    by (simp add: matched_card_def resolution_as_claimed_def)
qed

lemma lower_examples:
  "lower ''TellTimeAgent'' = ''telltimeagent''"
  "lower ''GreetingAgent'' = ''greetingagent''"
  "lower ''telltimeagent'' = ''telltimeagent''"
  "lower ''time'' = ''time''"
  "lower ''Weather'' = ''weather''"
  by (simp_all add: lower_def)

lemma matched_card_examples:
  "matched_card [tell_time_card, greeting_card] ''telltimeagent'' = Some tell_time_card"
  "matched_card [tell_time_card, greeting_card] ''time'' = Some tell_time_card"
  "matched_card [tell_time_card, greeting_card] ''Weather'' = None"
  by (simp_all add: matched_card_def example_cards_names lower_examples card_id_def lower_empty)

lemma call_agent_examples:
  "call_agent [tell_time_card, greeting_card] echo_send_task ''greeting_user''
       ''telltimeagent'' ''what time is it?'' Map.empty =
     (Inr ''TellTimeAgent'',
      [''TellTimeAgent'' \<mapsto>
         \<lparr>connector_name = ''TellTimeAgent'', base_url = ''http://localhost:10000'',
          sender_agent = ''GreetingAgent''\<rparr>])"
  "call_agent [tell_time_card, greeting_card] echo_send_task ''greeting_user''
       ''time'' ''what time is it?'' Map.empty =
     (Inr ''TellTimeAgent'',
      [''TellTimeAgent'' \<mapsto>
         \<lparr>connector_name = ''TellTimeAgent'', base_url = ''http://localhost:10000'',
          sender_agent = ''GreetingAgent''\<rparr>])"
  "call_agent [tell_time_card, greeting_card] echo_send_task ''greeting_user''
       ''Weather'' ''what time is it?'' Map.empty =
     (Inl (ValueError (''Agent '' @ [CHR 0x27] @ ''Weather'' @ [CHR 0x27] @ '' not found.'')),
      Map.empty)"
  by (simp_all add: call_agent_def matched_card_examples echo_send_task_def Let_def
        example_cards_names)

text \<open>
  Claim C6. The claim wants every delegation to resolve the requested name up to case,
  then by a part of the name: with the cards \<^verbatim>\<open>TellTimeAgent\<close> and \<^verbatim>\<open>GreetingAgent\<close>,
  \<^verbatim>\<open>telltimeagent\<close> and \<^verbatim>\<open>time\<close> select the first card and \<^verbatim>\<open>Weather\<close> is not found.
  \<^verbatim>\<open>call_agent\<close> of the greeting agent does so. \<^verbatim>\<open>_delegate_task\<close> of the orchestrator
  does not: it looks the name up as it is written, and raises \<^verbatim>\<open>Unknown agent\<close> for
  \<^verbatim>\<open>telltimeagent\<close> and for \<^verbatim>\<open>time\<close>.
\<close>

theorem delegate_task_misses_fuzzy_names:
  "delegate_task (connectors_init [tell_time_card, greeting_card]) echo_send_task ''u-1''
       ''telltimeagent'' ''what time is it?'' Map.empty =
     (Inl (ValueError ''Unknown agent: telltimeagent''), Map.empty)
   \<and> delegate_task (connectors_init [tell_time_card, greeting_card]) echo_send_task ''u-1''
       ''time'' ''what time is it?'' Map.empty =
     (Inl (ValueError ''Unknown agent: time''), Map.empty)
   \<and> fst (call_agent [tell_time_card, greeting_card] echo_send_task ''greeting_user''
       ''telltimeagent'' ''what time is it?'' Map.empty) = Inr ''TellTimeAgent''
   \<and> fst (call_agent [tell_time_card, greeting_card] echo_send_task ''greeting_user''
       ''time'' ''what time is it?'' Map.empty) = Inr ''TellTimeAgent''"
proof -
  have "connectors_init [tell_time_card, greeting_card] ''telltimeagent'' = None"
    and "connectors_init [tell_time_card, greeting_card] ''time'' = None"
    by (simp_all add: connectors_init_def example_cards_names)
  then have "delegate_task (connectors_init [tell_time_card, greeting_card]) echo_send_task
       ''u-1'' ''telltimeagent'' ''what time is it?'' Map.empty =
     (Inl (ValueError ''Unknown agent: telltimeagent''), Map.empty)"
    and "delegate_task (connectors_init [tell_time_card, greeting_card]) echo_send_task
       ''u-1'' ''time'' ''what time is it?'' Map.empty =
     (Inl (ValueError ''Unknown agent: time''), Map.empty)"
    by (simp_all add: delegate_task_def)
  then show ?thesis
    by (simp add: call_agent_examples)
qed

section \<open>Discovery\<close>

lemma list_agent_cards_loop_eq:
  "list_agent_cards_loop env cards base_urls = cards @ List.map_filter (card_at env) base_urls"
proof (induction base_urls arbitrary: cards)
  case Nil
  show ?case by simp
next
  case (Cons base base_urls)
  show ?case
  proof (cases "fetch_card env (rstrip base ''/'' @ ''/.well-known/agent.json'')")
    case (Inl e)
    then show ?thesis
      by (simp add: Cons.IH card_at_def)
  next
    case (Inr agent_card)
    then show ?thesis
      by (simp add: Cons.IH card_at_def)
  qed
qed

text \<open>
  A base URL yields a card exactly when the GET of its discovery URL returns a response,
  the status of the response is accepted, its body decodes and the decoded body
  validates as an agent card; the card is the validated one.
\<close>

lemma card_at_unfolded:
  "card_at env base =
     (case client_get env (rstrip base ''/'' @ ''/.well-known/agent.json'') of
        Inl e \<Rightarrow> None
      | Inr response \<Rightarrow>
          (case raise_for_status env response of
             Inl e \<Rightarrow> None
           | Inr ok \<Rightarrow>
               (case response_json env response of
                  Inl e \<Rightarrow> None
                | Inr body \<Rightarrow>
                    (case model_validate env body of
                       Inl e \<Rightarrow> None
                     | Inr agent_card \<Rightarrow> Some agent_card))))"
  by (simp add: card_at_def fetch_card_def split: sum.split)

lemma card_at_characterised:
  "(card_at env base = Some agent_card) =
     (\<exists>response body.
        client_get env (rstrip base ''/'' @ ''/.well-known/agent.json'') = Inr response
        \<and> raise_for_status env response = Inr ()
        \<and> response_json env response = Inr body
        \<and> model_validate env body = Inr agent_card)"
  by (auto simp add: card_at_unfolded split: sum.splits)

lemma card_at_failures:
  "client_get env (rstrip base ''/'' @ ''/.well-known/agent.json'') = Inl e \<Longrightarrow>
     card_at env base = None"
  "client_get env (rstrip base ''/'' @ ''/.well-known/agent.json'') = Inr response \<Longrightarrow>
     raise_for_status env response = Inl e \<Longrightarrow> card_at env base = None"
  "client_get env (rstrip base ''/'' @ ''/.well-known/agent.json'') = Inr response \<Longrightarrow>
     response_json env response = Inl e \<Longrightarrow> card_at env base = None"
  "client_get env (rstrip base ''/'' @ ''/.well-known/agent.json'') = Inr response \<Longrightarrow>
     response_json env response = Inr body \<Longrightarrow> model_validate env body = Inl e \<Longrightarrow>
     card_at env base = None"
  by (simp_all add: card_at_unfolded split: sum.split)

text \<open>
  Claim C8. Every fallible call of \<^verbatim>\<open>list_agent_cards\<close> sits in the \<^verbatim>\<open>try\<close> block
  whose handler goes on with the next URL, so the function has no outcome but a list of
  cards. For every registry and every way the fetches fail, the list holds, in the order
  of the registry, the card of each base URL whose GET returns a response, whose status
  \<^verbatim>\<open>raise_for_status\<close> accepts, whose body decodes and whose decoded body validates as
  an agent card, and nothing for a base URL where one of the four raises: a network
  error or timeout, a status that is not 2xx, a malformed body, a schema mismatch. With
  one unreachable URL among three, the cards of the other two come back in their order.
\<close>

theorem list_agent_cards_skips_failed_urls:
  "list_agent_cards env base_urls =
     List.map_filter
       (\<lambda>base.
          case client_get env (rstrip base ''/'' @ ''/.well-known/agent.json'') of
            Inl e \<Rightarrow> None
          | Inr response \<Rightarrow>
              (case raise_for_status env response of
                 Inl e \<Rightarrow> None
               | Inr ok \<Rightarrow>
                   (case response_json env response of
                      Inl e \<Rightarrow> None
                    | Inr body \<Rightarrow>
                        (case model_validate env body of
                           Inl e \<Rightarrow> None
                         | Inr agent_card \<Rightarrow> Some agent_card))))
       base_urls"
proof -
  have "list_agent_cards env base_urls = [] @ List.map_filter (card_at env) base_urls"
    unfolding list_agent_cards_def by (rule list_agent_cards_loop_eq)
  then have "list_agent_cards env base_urls = List.map_filter (card_at env) base_urls"
    by simp
  moreover have "card_at env =
       (\<lambda>base.
          case client_get env (rstrip base ''/'' @ ''/.well-known/agent.json'') of
            Inl e \<Rightarrow> None
          | Inr response \<Rightarrow>
              (case raise_for_status env response of
                 Inl e \<Rightarrow> None
               | Inr ok \<Rightarrow>
                   (case response_json env response of
                      Inl e \<Rightarrow> None
                    | Inr body \<Rightarrow>
                        (case model_validate env body of
                           Inl e \<Rightarrow> None
                         | Inr agent_card \<Rightarrow> Some agent_card))))"
    by (rule ext) (rule card_at_unfolded)
  ultimately show ?thesis by simp
qed

lemma discovery_urls:
  "rstrip ''http://time/'' ''/'' = ''http://time''"
  "rstrip ''http://time'' ''/'' = ''http://time''"
  "rstrip ''http://down'' ''/'' = ''http://down''"
  "rstrip ''http://greet'' ''/'' = ''http://greet''"
  "rstrip ''http://greet//'' ''/'' = ''http://greet''"
  "rstrip ''http://gone'' ''/'' = ''http://gone''"
  "rstrip ''http://html/'' ''/'' = ''http://html''"
  "rstrip ''http://slow'' ''/'' = ''http://slow''"
  "rstrip ''http://other'' ''/'' = ''http://other''"
  by (simp_all add: rstrip_def)

text \<open>
  The peers one by one: a refused connection, a timeout, the status 404, a body that is
  no JSON and JSON that is no card each yield nothing.
\<close>

lemma card_at_peers:
  "card_at peers_env ''http://time/'' = Some tell_time_card"
  "card_at peers_env ''http://time'' = Some tell_time_card"
  "card_at peers_env ''http://greet'' = Some greeting_card"
  "card_at peers_env ''http://greet//'' = Some greeting_card"
  "card_at peers_env ''http://down'' = None"
  "card_at peers_env ''http://slow'' = None"
  "card_at peers_env ''http://gone'' = None"
  "card_at peers_env ''http://html/'' = None"
  "card_at peers_env ''http://other'' = None"
  by (simp_all add: card_at_unfolded peers_env_def discovery_urls)

theorem list_agent_cards_skips_failed_urls_witness:
  "list_agent_cards peers_env three_urls = [tell_time_card, greeting_card]
   \<and> list_agent_cards peers_env seven_urls = [tell_time_card, greeting_card]"
proof -
  have "List.map_filter (card_at peers_env) three_urls = [tell_time_card, greeting_card]"
    and "List.map_filter (card_at peers_env) seven_urls = [tell_time_card, greeting_card]"
    by (simp_all add: three_urls_def seven_urls_def card_at_peers)
  then show ?thesis
    using list_agent_cards_skips_failed_urls [of peers_env three_urls]
          list_agent_cards_skips_failed_urls [of peers_env seven_urls]
    by (simp add: card_at_unfolded [abs_def])
qed

section \<open>The interaction log\<close>

lemma dirname_LOG_FILE: "dirname LOG_FILE = ''logs''"
  by (simp add: dirname_def LOG_FILE_def rstrip_def Let_def)

text \<open>
  Claim C7, as amended. \<^verbatim>\<open>log_interaction\<close> returns, with one line appended to the
  log, exactly when the directory can be made, the file can be opened, the entry can be
  serialised and the line can be written; an exception of any of these four calls is
  the outcome of \<^verbatim>\<open>log_interaction\<close> itself and reaches the caller.
\<close>

theorem log_interaction_propagates_failures:
  "log_interaction env sender_name receiver_name payload dir log_text =
     (case makedirs env ''logs'' of
        Inl e \<Rightarrow> Inl e
      | Inr _ \<Rightarrow>
          (case open_append env ''logs/rpc_logs.jsonl'' of
             Inl e \<Rightarrow> Inl e
           | Inr _ \<Rightarrow>
               (case json_dumps env
                       \<lparr>entry_timestamp = utcnow_isoformat env, sender = sender_name,
                        receiver = receiver_name, direction = dir, data = payload\<rparr> of
                  Inl e \<Rightarrow> Inl e
                | Inr line \<Rightarrow>
                    (case file_write env (line @ [CHR 0x0A]) of
                       Inl e \<Rightarrow> Inl e
                     | Inr _ \<Rightarrow> Inr (log_text @ line @ [CHR 0x0A])))))"
  unfolding log_interaction_def ensure_log_dir_def dirname_LOG_FILE Let_def
  by (simp add: LOG_FILE_def split: sum.split)

theorem log_interaction_propagates_failures_witness:
  "log_interaction working_env ''orchestrator_agent'' ''TellTimeAgent'' () ''send'' [] =
     Inr (''orchestrator_agent>TellTimeAgent'' @ [CHR 0x0A])
   \<and> log_interaction unserialisable_env ''orchestrator_agent'' ''TellTimeAgent'' () ''send'' [] =
     Inl (TypeError ''Object is not JSON serializable'')"
  using log_interaction_propagates_failures
          [of working_env "''orchestrator_agent''" "''TellTimeAgent''" "()" "''send''" "[]"]
        log_interaction_propagates_failures
          [of unserialisable_env "''orchestrator_agent''" "''TellTimeAgent''" "()" "''send''" "[]"]
  by (simp add: working_env_def unserialisable_env_def)

text \<open>
  Claim C7 as stated fails: where the log directory cannot be created, the
  \<^verbatim>\<open>OSError\<close> of \<^verbatim>\<open>os.makedirs\<close> leaves \<^verbatim>\<open>log_interaction\<close>.
\<close>

theorem log_interaction_raises_counterexample:
  "log_interaction readonly_env ''orchestrator_agent'' ''TellTimeAgent'' () ''send'' [] =
     Inl (OSError ''Permission denied'')"
  by (simp add: log_interaction_def ensure_log_dir_def readonly_env_def working_env_def)

end
